theory Spec2Isabelle
  imports Complex_Main "HOL-Library.Word"
begin

unbundle bit_operations_syntax

section \<open>Python values\<close>

text \<open>
  A Python \<open>str\<close> is a sequence of Unicode code points, so \<open>len\<close> counts code points
  and not bytes. A code point is a natural number; \<open>ascii\<close> reads an ASCII literal.
\<close>

type_synonym pystr = "nat list"
type_synonym byte = "8 word"
type_synonym u32 = "32 word"

definition ascii :: "string \<Rightarrow> pystr" where
  "ascii s = map of_char s"

text \<open>
  The values that reach the agent from its collaborators are decoded JSON: \<open>None\<close>,
  booleans, numbers, strings, lists and dictionaries with string keys (in insertion order).
\<close>

datatype pyval =
    PNone
  | PBool bool
  | PInt int
  | PFloat rat
  | PStr pystr
  | PList "pyval list"
  | PDict "(pystr \<times> pyval) list"

text \<open>The exceptions that the agent and its libraries raise.\<close>

datatype error =
    ApifyError
  | NoResults
  | RequestError
  | HTTPError
  | JSONDecodeError
  | KeyError
  | IndexError
  | TypeError
  | AttributeError
  | TokenizerError
  | UnicodeEncodeError
  | EmbeddingError
  | ZeroDivisionError

text \<open>Truth value testing, as \<open>not x\<close>, \<open>x or y\<close> and \<open>if x\<close> use it.\<close>

fun truthy :: "pyval \<Rightarrow> bool" where
  "truthy PNone = False"
| "truthy (PBool b) = b"
| "truthy (PInt n) = (n \<noteq> 0)"
| "truthy (PFloat x) = (x \<noteq> 0)"
| "truthy (PStr s) = (s \<noteq> [])"
| "truthy (PList xs) = (xs \<noteq> [])"
| "truthy (PDict kvs) = (kvs \<noteq> [])"

text \<open>\<open>len(x)\<close>: a \<open>TypeError\<close> for a value without a length.\<close>

fun py_len :: "pyval \<Rightarrow> error + nat" where
  "py_len (PStr s) = Inr (length s)"
| "py_len (PList xs) = Inr (length xs)"
| "py_len (PDict kvs) = Inr (length kvs)"
| "py_len _ = Inl TypeError"

text \<open>\<open>x.get(k)\<close>: only a dictionary has the method; a missing key gives \<open>None\<close>.\<close>

fun py_get :: "pyval \<Rightarrow> pystr \<Rightarrow> error + pyval" where
  "py_get (PDict kvs) k = Inr (case map_of kvs k of None \<Rightarrow> PNone | Some v \<Rightarrow> v)"
| "py_get _ k = Inl AttributeError"

text \<open>\<open>x[k]\<close> with a string key, and \<open>x[0]\<close>.\<close>

fun py_getitem :: "pyval \<Rightarrow> pystr \<Rightarrow> error + pyval" where
  "py_getitem (PDict kvs) k = (case map_of kvs k of None \<Rightarrow> Inl KeyError | Some v \<Rightarrow> Inr v)"
| "py_getitem _ k = Inl TypeError"

fun py_getitem0 :: "pyval \<Rightarrow> error + pyval" where
  "py_getitem0 (PList xs) = (case xs of [] \<Rightarrow> Inl IndexError | x # _ \<Rightarrow> Inr x)"
| "py_getitem0 (PStr s) = (case s of [] \<Rightarrow> Inl IndexError | c # _ \<Rightarrow> Inr (PStr [c]))"
| "py_getitem0 (PDict kvs) = Inl KeyError"
| "py_getitem0 _ = Inl TypeError"

text \<open>Iteration, as a \<open>for\<close> loop sees it: a dictionary yields its keys, a string its characters.\<close>

fun py_iter :: "pyval \<Rightarrow> error + pyval list" where
  "py_iter (PList xs) = Inr xs"
| "py_iter (PStr s) = Inr (map (\<lambda>c. PStr [c]) s)"
| "py_iter (PDict kvs) = Inr (map (\<lambda>kv. PStr (fst kv)) kvs)"
| "py_iter _ = Inl TypeError"

section \<open>Strings\<close>

text \<open>
  \<open>str.isspace\<close> for one character: the code points whose bidirectional type is WS, B or S
  or whose category is Zs, as CPython's Unicode database lists them.
\<close>

definition isspace :: "nat \<Rightarrow> bool" where
  "isspace c \<longleftrightarrow>
     (9 \<le> c \<and> c \<le> 13) \<or> (28 \<le> c \<and> c \<le> 32) \<or> c = 133 \<or> c = 160 \<or> c = 5760 \<or>
     (8192 \<le> c \<and> c \<le> 8202) \<or> c = 8232 \<or> c = 8233 \<or> c = 8239 \<or> c = 8287 \<or> c = 12288"

text \<open>\<open>s.split()\<close>: the maximal runs of characters that are not whitespace.\<close>

fun split_from :: "pystr \<Rightarrow> pystr \<Rightarrow> pystr list" where
  "split_from w [] = (if w = [] then [] else [w])"
| "split_from w (c # cs) =
     (if isspace c then (if w = [] then split_from [] cs else w # split_from [] cs)
      else split_from (w @ [c]) cs)"

definition py_split :: "pystr \<Rightarrow> pystr list" where
  "py_split s = split_from [] s"

definition py_strip :: "pystr \<Rightarrow> pystr" where
  "py_strip s = rev (dropWhile isspace (rev (dropWhile isspace s)))"

definition startswith :: "pystr \<Rightarrow> pystr \<Rightarrow> bool" where
  "startswith s p \<longleftrightarrow> take (length p) s = p"

definition endswith :: "pystr \<Rightarrow> pystr \<Rightarrow> bool" where
  "endswith s p \<longleftrightarrow> length p \<le> length s \<and> drop (length s - length p) s = p"

text \<open>\<open>sep.join(parts)\<close>.\<close>

fun py_join :: "pystr \<Rightarrow> pystr list \<Rightarrow> pystr" where
  "py_join sep [] = []"
| "py_join sep [p] = p"
| "py_join sep (p # q # ps) = p @ sep @ py_join sep (q # ps)"

text \<open>\<open>str(n)\<close> for an integer: decimal digits, a minus sign for a negative number.\<close>

fun digits :: "nat \<Rightarrow> pystr" where
  "digits n = (if n < 10 then [48 + n] else digits (n div 10) @ [48 + n mod 10])"

declare digits.simps [simp del]

definition py_str_int :: "int \<Rightarrow> pystr" where
  "py_str_int n = (if n < 0 then 45 # digits (nat (- n)) else digits (nat n))"

text \<open>
  \<open>s.encode('utf-8')\<close>. A surrogate code point has no UTF-8 form: CPython raises
  \<open>UnicodeEncodeError\<close>. No \<open>str\<close> holds a code point above \<open>0x10FFFF\<close>.
\<close>

definition utf8_char :: "nat \<Rightarrow> error + byte list" where
  "utf8_char c =
     (if c < 128 then Inr [of_nat c]
      else if c < 2048 then Inr [of_nat (192 + c div 64), of_nat (128 + c mod 64)]
      else if 55296 \<le> c \<and> c \<le> 57343 then Inl UnicodeEncodeError
      else if c < 65536 then
        Inr [of_nat (224 + c div 4096), of_nat (128 + c div 64 mod 64), of_nat (128 + c mod 64)]
      else if c < 1114112 then
        Inr [of_nat (240 + c div 262144), of_nat (128 + c div 4096 mod 64),
             of_nat (128 + c div 64 mod 64), of_nat (128 + c mod 64)]
      else Inl UnicodeEncodeError)"

fun utf8_encode :: "pystr \<Rightarrow> error + byte list" where
  "utf8_encode [] = Inr []"
| "utf8_encode (c # cs) =
     (case utf8_char c of
        Inl e \<Rightarrow> Inl e
      | Inr bs \<Rightarrow> (case utf8_encode cs of Inl e \<Rightarrow> Inl e | Inr rest \<Rightarrow> Inr (bs @ rest)))"

section \<open>MD5\<close>

text \<open>
  \<open>hashlib.md5(data).hexdigest()\<close>, as RFC 1321 defines the digest: the padded message is
  cut into blocks of 64 bytes, every block runs 64 steps over four 32-bit registers, and
  the registers are written out in little-endian order as lowercase hexadecimal.
\<close>

definition md5_K :: "u32 list" where
  "md5_K = [
  0xd76aa478, 0xe8c7b756, 0x242070db, 0xc1bdceee, 0xf57c0faf, 0x4787c62a, 0xa8304613, 0xfd469501,
  0x698098d8, 0x8b44f7af, 0xffff5bb1, 0x895cd7be, 0x6b901122, 0xfd987193, 0xa679438e, 0x49b40821,
  0xf61e2562, 0xc040b340, 0x265e5a51, 0xe9b6c7aa, 0xd62f105d, 0x02441453, 0xd8a1e681, 0xe7d3fbc8,
  0x21e1cde6, 0xc33707d6, 0xf4d50d87, 0x455a14ed, 0xa9e3e905, 0xfcefa3f8, 0x676f02d9, 0x8d2a4c8a,
  0xfffa3942, 0x8771f681, 0x6d9d6122, 0xfde5380c, 0xa4beea44, 0x4bdecfa9, 0xf6bb4b60, 0xbebfbc70,
  0x289b7ec6, 0xeaa127fa, 0xd4ef3085, 0x04881d05, 0xd9d4d039, 0xe6db99e5, 0x1fa27cf8, 0xc4ac5665,
  0xf4292244, 0x432aff97, 0xab9423a7, 0xfc93a039, 0x655b59c3, 0x8f0ccc92, 0xffeff47d, 0x85845dd1,
  0x6fa87e4f, 0xfe2ce6e0, 0xa3014314, 0x4e0811a1, 0xf7537e82, 0xbd3af235, 0x2ad7d2bb, 0xeb86d391]"

definition md5_S :: "nat list" where
  "md5_S = [7, 12, 17, 22, 7, 12, 17, 22, 7, 12, 17, 22, 7, 12, 17, 22,
            5, 9, 14, 20, 5, 9, 14, 20, 5, 9, 14, 20, 5, 9, 14, 20,
            4, 11, 16, 23, 4, 11, 16, 23, 4, 11, 16, 23, 4, 11, 16, 23,
            6, 10, 15, 21, 6, 10, 15, 21, 6, 10, 15, 21, 6, 10, 15, 21]"

definition rotl32 :: "nat \<Rightarrow> u32 \<Rightarrow> u32" where
  "rotl32 s x = push_bit s x OR drop_bit (32 - s) x"

type_synonym md5_state = "u32 \<times> u32 \<times> u32 \<times> u32"

fun md5_step :: "u32 list \<Rightarrow> md5_state \<Rightarrow> nat \<Rightarrow> md5_state" where
  "md5_step M (a, b, c, d) i =
    (let (f, g) =
       (if i < 16 then ((b AND c) OR (NOT b AND d), i)
        else if i < 32 then ((d AND b) OR (NOT d AND c), (5 * i + 1) mod 16)
        else if i < 48 then (b XOR c XOR d, (3 * i + 5) mod 16)
        else (c XOR (b OR NOT d), (7 * i) mod 16));
      f' = f + a + md5_K ! i + M ! g
     in (d, b + rotl32 (md5_S ! i) f', b, c))"

fun le_word :: "byte list \<Rightarrow> u32" where
  "le_word [] = 0"
| "le_word (b # bs) = ucast b OR push_bit 8 (le_word bs)"

definition chunks :: "nat \<Rightarrow> 'a list \<Rightarrow> 'a list list" where
  "chunks n xs = map (\<lambda>i. take n (drop (n * i) xs)) [0..<length xs div n]"

definition md5_block :: "md5_state \<Rightarrow> byte list \<Rightarrow> md5_state" where
  "md5_block st blk =
     (let M = map le_word (chunks 4 blk);
          (a, b, c, d) = st;
          (a', b', c', d') = foldl (md5_step M) st [0..<64]
      in (a + a', b + b', c + c', d + d'))"

definition le_bytes :: "nat \<Rightarrow> nat \<Rightarrow> byte list" where
  "le_bytes n v = map (\<lambda>i. of_nat (v div 256 ^ i mod 256)) [0..<n]"

definition md5_pad :: "byte list \<Rightarrow> byte list" where
  "md5_pad msg =
     msg @ [0x80] @ replicate ((119 - length msg mod 64) mod 64) 0
       @ le_bytes 8 (8 * length msg mod 2 ^ 64)"

definition md5_digest :: "byte list \<Rightarrow> byte list" where
  "md5_digest msg =
    (let (a, b, c, d) =
       foldl md5_block (0x67452301, 0xefcdab89, 0x98badcfe, 0x10325476) (chunks 64 (md5_pad msg))
     in concat (map (\<lambda>w. le_bytes 4 (unat w)) [a, b, c, d]))"

definition hex_digit :: "nat \<Rightarrow> nat" where
  "hex_digit n = (if n < 10 then 48 + n else 87 + n)"

definition hexdigest :: "byte list \<Rightarrow> pystr" where
  "hexdigest bs = concat (map (\<lambda>b. [hex_digit (unat b div 16), hex_digit (unat b mod 16)]) bs)"

definition md5_hexdigest :: "byte list \<Rightarrow> pystr" where
  "md5_hexdigest msg = hexdigest (md5_digest msg)"

section \<open>Floating point\<close>

text \<open>
  A finite Python \<open>float\<close> is a binary64 number, here the rational number it stands for.
  \<open>nearest_double a b\<close> is the binary64 number next to the fraction \<open>a / b\<close> (53 significant
  bits, a tie going to the even significand), which is what CPython's true division of two
  integers returns; counts of characters, words and tokens are far inside the exponent range.
\<close>

fun bitlen :: "nat \<Rightarrow> nat" where
  "bitlen n = (if n = 0 then 0 else Suc (bitlen (n div 2)))"

declare bitlen.simps [simp del]

definition pow2 :: "int \<Rightarrow> rat" where
  "pow2 k = (if 0 \<le> k then 2 ^ nat k else 1 / 2 ^ nat (- k))"

definition round_half_even :: "rat \<Rightarrow> int" where
  "round_half_even x =
     (let f = \<lfloor>x\<rfloor>; d = x - of_int f
      in if d < 1 / 2 then f else if 1 / 2 < d then f + 1 else if even f then f else f + 1)"

definition binary_exponent :: "nat \<Rightarrow> nat \<Rightarrow> int" where
  "binary_exponent a b =
     (let e0 = int (bitlen a) - int (bitlen b)
      in if pow2 e0 * of_nat b \<le> of_nat a then e0 else e0 - 1)"

definition nearest_double :: "nat \<Rightarrow> nat \<Rightarrow> rat" where
  "nearest_double a b =
     (if a = 0 then 0
      else let s = 52 - binary_exponent a b
           in of_int (round_half_even (of_nat a / of_nat b * pow2 s)) / pow2 s)"

text \<open>\<open>a / b\<close> on two non-negative integers.\<close>

definition py_truediv :: "nat \<Rightarrow> nat \<Rightarrow> error + rat" where
  "py_truediv a b = (if b = 0 then Inl ZeroDivisionError else Inr (nearest_double a b))"

text \<open>
  \<open>round(x, 2)\<close> on a float: CPython rounds the exact value of \<open>x\<close> to two decimal places,
  a tie going to the even digit, and returns the binary64 number next to that decimal.
\<close>

definition py_round2 :: "rat \<Rightarrow> rat" where
  "py_round2 x =
     (let k = round_half_even (x * 100)
      in if k < 0 then - nearest_double (nat (- k)) 100 else nearest_double (nat k) 100)"

text \<open>
  A component of an embedding is a finite float with its sign bit: \<open>PyFloat s m e\<close> stands
  for \<open>m / 2 ^ e\<close>, negative when \<open>s\<close> holds. \<open>format_10f\<close> is \<open>f"{x:.10f}"\<close>: the
  exact value rounded to ten decimals (a tie going to the even digit), the sign kept even
  when the digits are all zero.
\<close>

datatype pyfloat = PyFloat bool nat nat

definition frac10 :: "nat \<Rightarrow> pystr" where
  "frac10 r = map (\<lambda>i. 48 + r div 10 ^ (9 - i) mod 10) [0..<10]"

fun format_10f :: "pyfloat \<Rightarrow> pystr" where
  "format_10f (PyFloat s m e) =
     (let n = nat (round_half_even (of_nat m * 10 ^ 10 / 2 ^ e))
      in (if s then [45] else []) @ digits (n div 10 ^ 10) @ [46] @ frac10 (n mod 10 ^ 10))"

section \<open>The collaborators\<close>

text \<open>
  The agent reaches the outside world through four libraries. Each is a parameter of the
  model and may raise:
  \<^item> \<open>youtube_scraper url\<close>: the items of the Apify YouTube scraper's dataset;
  \<^item> \<open>openrouter_post artist_name\<close>: the HTTP response to the prompt built from the
    artist name (status code and decoded JSON body);
  \<^item> \<open>json_loads text\<close>: \<open>json.loads\<close>;
  \<^item> \<open>genius_scraper i song_title artist_name\<close>: the dataset items of the \<open>i\<close>-th lyrics
    scrape, whose URL is computed from title and artist;
  \<^item> \<open>tokenizer text\<close>: the \<open>cl100k_base\<close> encoding of a string;
  \<^item> \<open>embedding_model text\<close>: the sentence embedding of a string.
  Printing and the pauses between requests change no result and are left out.
\<close>

record response =
  status_code :: int
  json_body :: "error + pyval"

record env =
  youtube_scraper :: "pystr \<Rightarrow> error + pyval list"
  openrouter_post :: "pyval \<Rightarrow> error + response"
  json_loads :: "pystr \<Rightarrow> error + pyval"
  genius_scraper :: "nat \<Rightarrow> pyval \<Rightarrow> pyval \<Rightarrow> error + pyval list"
  tokenizer :: "pystr \<Rightarrow> error + int list"
  embedding_model :: "pystr \<Rightarrow> error + pyfloat list"

section \<open>The agent\<close>

subsection \<open>get_artist_from_youtube\<close>

definition get_artist_from_youtube :: "env \<Rightarrow> pystr \<Rightarrow> error + pyval" where
  "get_artist_from_youtube env youtube_url =
     (case youtube_scraper env youtube_url of
        Inl e \<Rightarrow> Inl e
      | Inr results \<Rightarrow>
          (case results of
             [] \<Rightarrow> Inl NoResults
           | r # _ \<Rightarrow>
               (case py_get r (ascii ''channelName'') of
                  Inl e \<Rightarrow> Inl e
                | Inr channel \<Rightarrow>
                    if truthy channel then Inr channel else py_get r (ascii ''author''))))"

subsection \<open>get_first_album_songs\<close>

text \<open>\<open>response.raise_for_status()\<close> raises for the status codes 400 to 599.\<close>

definition raise_for_status :: "response \<Rightarrow> bool" where
  "raise_for_status r \<longleftrightarrow> 400 \<le> status_code r \<and> status_code r < 600"

definition strip_fences :: "pystr \<Rightarrow> pystr" where
  "strip_fences response_text =
     (let t1 = py_strip response_text;
          t2 = (if startswith t1 (ascii ''```json'') then drop 7 t1 else t1);
          t3 = (if startswith t2 (ascii ''```'') then drop 3 t2 else t2);
          t4 = (if endswith t3 (ascii ''```'') then take (length t3 - 3) t3 else t3)
      in py_strip t4)"

definition message_content :: "pyval \<Rightarrow> error + pyval" where
  "message_content response_data =
     (case py_getitem response_data (ascii ''choices'') of
        Inl e \<Rightarrow> Inl e
      | Inr choices \<Rightarrow>
          (case py_getitem0 choices of
             Inl e \<Rightarrow> Inl e
           | Inr choice \<Rightarrow>
               (case py_getitem choice (ascii ''message'') of
                  Inl e \<Rightarrow> Inl e
                | Inr message \<Rightarrow> py_getitem message (ascii ''content''))))"

definition parse_album :: "env \<Rightarrow> pyval \<Rightarrow> error + (pyval \<times> pyval)" where
  "parse_album env content =
     (case content of
        PStr response_text \<Rightarrow>
          (case json_loads env (strip_fences response_text) of
             Inl e \<Rightarrow> Inl e
           | Inr album_data \<Rightarrow>
               (case py_getitem album_data (ascii ''album_name'') of
                  Inl e \<Rightarrow> Inl e
                | Inr album_name \<Rightarrow>
                    (case py_getitem album_data (ascii ''songs'') of
                       Inl e \<Rightarrow> Inl e
                     | Inr songs \<Rightarrow>
                         (case py_len songs of
                            Inl e \<Rightarrow> Inl e
                          | Inr n \<Rightarrow> Inr (album_name, songs)))))
      | _ \<Rightarrow> Inl AttributeError)"

definition get_first_album_songs :: "env \<Rightarrow> pyval \<Rightarrow> error + (pyval \<times> pyval)" where
  "get_first_album_songs env artist_name =
     (case openrouter_post env artist_name of
        Inl e \<Rightarrow> Inl e
      | Inr resp \<Rightarrow>
          if status_code resp \<noteq> 200 \<and> raise_for_status resp then Inl HTTPError
          else
            (case json_body resp of
               Inl e \<Rightarrow> Inl e
             | Inr response_data \<Rightarrow>
                 (case message_content response_data of
                    Inl e \<Rightarrow> Inl e
                  | Inr content \<Rightarrow> parse_album env content)))"

subsection \<open>scrape_genius_lyrics\<close>

text \<open>Every exception inside the scrape is caught and turned into \<open>None\<close>.\<close>

definition scrape_genius_lyrics :: "env \<Rightarrow> nat \<Rightarrow> pyval \<Rightarrow> pyval \<Rightarrow> pyval" where
  "scrape_genius_lyrics env i song_title artist_name =
     (case genius_scraper env i song_title artist_name of
        Inl e \<Rightarrow> PNone
      | Inr results \<Rightarrow>
          (case results of
             [] \<Rightarrow> PNone
           | r # _ \<Rightarrow>
               (case py_get r (ascii ''lyrics'') of
                  Inl e \<Rightarrow> PNone
                | Inr found \<Rightarrow>
                    if truthy found then
                      (case py_getitem r (ascii ''lyrics'') of
                         Inl e \<Rightarrow> PNone
                       | Inr lyrics \<Rightarrow>
                           (case py_len lyrics of
                              Inl e \<Rightarrow> PNone
                            | Inr n \<Rightarrow> if n > 50 then lyrics else PNone))
                    else PNone)))"

subsection \<open>calculate_token_metrics\<close>

record metrics =
  chars :: nat
  words :: nat
  tokens :: nat
  tokens_per_word :: rat
  hash :: pystr

definition zero_metrics :: metrics where
  "zero_metrics =
     \<lparr>chars = 0, words = 0, tokens = 0, tokens_per_word = 0, hash = md5_hexdigest []\<rparr>"

text \<open>
  A value that is neither \<open>None\<close> nor empty goes to the tokenizer, which takes a string
  only. The quotient is computed under the guard \<open>word_count > 0\<close>.
\<close>

definition calculate_token_metrics :: "(pystr \<Rightarrow> error + int list) \<Rightarrow> pyval \<Rightarrow> error + metrics" where
  "calculate_token_metrics tok lyrics =
     (if \<not> truthy lyrics then
        (case utf8_encode [] of Inl e \<Rightarrow> Inl e
         | Inr bs \<Rightarrow> Inr \<lparr>chars = 0, words = 0, tokens = 0, tokens_per_word = 0,
                         hash = md5_hexdigest bs\<rparr>)
      else
        (case lyrics of
           PStr text \<Rightarrow>
             (case tok text of
                Inl e \<Rightarrow> Inl e
              | Inr toks \<Rightarrow>
                  (let token_count = length toks;
                       char_count = length text;
                       word_count = length (py_split text)
                   in case (if word_count > 0
                            then (case py_truediv token_count word_count of
                                    Inl e \<Rightarrow> Inl e | Inr q \<Rightarrow> Inr (py_round2 q))
                            else Inr 0) of
                        Inl e \<Rightarrow> Inl e
                      | Inr tpw \<Rightarrow>
                          (case utf8_encode text of
                             Inl e \<Rightarrow> Inl e
                           | Inr bs \<Rightarrow>
                               Inr \<lparr>chars = char_count, words = word_count,
                                    tokens = token_count, tokens_per_word = tpw,
                                    hash = md5_hexdigest bs\<rparr>)))
         | _ \<Rightarrow> Inl TypeError))"

subsection \<open>generate_embedding_hash\<close>

definition generate_embedding_hash :: "(pystr \<Rightarrow> error + pyfloat list) \<Rightarrow> int list \<Rightarrow> error + pystr" where
  "generate_embedding_hash emb token_counts =
     (let token_string = py_join [44] (map py_str_int token_counts)
      in case emb token_string of
           Inl e \<Rightarrow> Inl e
         | Inr embedding \<Rightarrow>
             (let formatted_embedding = py_join [44] (map format_10f embedding)
              in case utf8_encode formatted_embedding of
                   Inl e \<Rightarrow> Inl e
                 | Inr bs \<Rightarrow> Inr (md5_hexdigest bs)))"

subsection \<open>run\<close>

record song =
  name :: pyval
  lyrics_length_chars :: nat
  lyrics_length_words :: nat
  lyrics_length_tokens :: nat
  song_tokens_per_word :: rat
  lyrics_hash :: pystr

record report =
  artist :: pyval
  album_name :: pyval
  songs :: "song list"
  total_tokens_all_songs :: nat
  avg_tokens_per_song :: rat

definition song_entry :: "pyval \<Rightarrow> metrics \<Rightarrow> song" where
  "song_entry song_title m =
     \<lparr>name = song_title, lyrics_length_chars = chars m, lyrics_length_words = words m,
      lyrics_length_tokens = tokens m, song_tokens_per_word = tokens_per_word m,
      lyrics_hash = hash m\<rparr>"

text \<open>
  The loop over the track list, from track number \<open>i\<close> on, appending to \<open>songs_data\<close> and
  \<open>token_counts\<close>. An exception of \<open>calculate_token_metrics\<close> leaves the loop.
\<close>

fun process_songs ::
  "env \<Rightarrow> pyval \<Rightarrow> nat \<Rightarrow> pyval list \<Rightarrow> song list \<times> nat list \<Rightarrow> error + (song list \<times> nat list)" where
  "process_songs env artist_name i [] acc = Inr acc"
| "process_songs env artist_name i (song_title # rest) (songs_data, token_counts) =
     (let lyrics = scrape_genius_lyrics env i song_title artist_name
      in case calculate_token_metrics (tokenizer env) lyrics of
           Inl e \<Rightarrow> Inl e
         | Inr m \<Rightarrow>
             process_songs env artist_name (Suc i) rest
               (songs_data @ [song_entry song_title m], token_counts @ [tokens m]))"

definition average_tokens :: "pyval \<Rightarrow> nat \<Rightarrow> error + rat" where
  "average_tokens song_list total_tokens =
     (if truthy song_list then
        (case py_len song_list of
           Inl e \<Rightarrow> Inl e
         | Inr n \<Rightarrow>
             (case py_truediv total_tokens n of
                Inl e \<Rightarrow> Inl e
              | Inr q \<Rightarrow> Inr (py_round2 q)))
      else Inr 0)"

definition run :: "env \<Rightarrow> pystr \<Rightarrow> error + (report \<times> pystr)" where
  "run env youtube_url =
     (case get_artist_from_youtube env youtube_url of
        Inl e \<Rightarrow> Inl e
      | Inr artist_name \<Rightarrow>
          (case get_first_album_songs env artist_name of
             Inl e \<Rightarrow> Inl e
           | Inr (album, song_list) \<Rightarrow>
               (case py_iter song_list of
                  Inl e \<Rightarrow> Inl e
                | Inr titles \<Rightarrow>
                    (case process_songs env artist_name 1 titles ([], []) of
                       Inl e \<Rightarrow> Inl e
                     | Inr (songs_data, token_counts) \<Rightarrow>
                         (let total_tokens = sum_list token_counts
                          in case average_tokens song_list total_tokens of
                               Inl e \<Rightarrow> Inl e
                             | Inr avg_tokens \<Rightarrow>
                                 (case generate_embedding_hash (embedding_model env)
                                         (map int token_counts) of
                                    Inl e \<Rightarrow> Inl e
                                  | Inr embedding_hash \<Rightarrow>
                                      Inr (\<lparr>artist = artist_name, album_name = album,
                                            songs = songs_data,
                                            total_tokens_all_songs = total_tokens,
                                            avg_tokens_per_song = avg_tokens\<rparr>,
                                           embedding_hash)))))))"

section \<open>Specification-level notions\<close>

text \<open>
  The outcome of \<open>calculate_token_metrics\<close> for every track of the list \<open>titles\<close>, the
  first of them scraped as request number \<open>i\<close>.
\<close>

fun track_metrics :: "env \<Rightarrow> pyval \<Rightarrow> nat \<Rightarrow> pyval list \<Rightarrow> (error + metrics) list" where
  "track_metrics env artist_name i [] = []"
| "track_metrics env artist_name i (song_title # rest) =
     calculate_token_metrics (tokenizer env) (scrape_genius_lyrics env i song_title artist_name)
       # track_metrics env artist_name (Suc i) rest"

text \<open>
  The lyrics retrieval of one track fails or returns nothing: the scraper raises, its
  dataset is empty, or the first item has no lyrics.
\<close>

definition retrieval_fails :: "env \<Rightarrow> nat \<Rightarrow> pyval \<Rightarrow> pyval \<Rightarrow> bool" where
  "retrieval_fails env i song_title artist_name =
     (case genius_scraper env i song_title artist_name of
        Inl e \<Rightarrow> True
      | Inr results \<Rightarrow>
          (case results of
             [] \<Rightarrow> True
           | r # _ \<Rightarrow> py_get r (ascii ''lyrics'') = Inr PNone))"

text \<open>
  The fingerprint as the specification words it: the counts joined in order by a comma
  (nothing for no counts), the embedding of that string, every component rendered with ten
  digits after the decimal point and joined by a comma, the MD5 digest of the UTF-8 bytes
  in lowercase hexadecimal.
\<close>

definition spec_join :: "pystr \<Rightarrow> pystr list \<Rightarrow> pystr" where
  "spec_join sep parts =
     (case parts of [] \<Rightarrow> [] | p # rest \<Rightarrow> p @ concat (map (\<lambda>q. sep @ q) rest))"

definition fingerprint_spec :: "(pystr \<Rightarrow> error + pyfloat list) \<Rightarrow> int list \<Rightarrow> error + pystr" where
  "fingerprint_spec emb token_counts =
     (case emb (spec_join (ascii '','') (map py_str_int token_counts)) of
        Inl e \<Rightarrow> Inl e
      | Inr v \<Rightarrow>
          Inr (md5_hexdigest (map of_nat (spec_join (ascii '','') (map format_10f v)))))"

definition is_digit :: "nat \<Rightarrow> bool" where
  "is_digit c \<longleftrightarrow> 48 \<le> c \<and> c \<le> 57"

definition is_lower_hex :: "nat \<Rightarrow> bool" where
  "is_lower_hex c \<longleftrightarrow> (48 \<le> c \<and> c \<le> 57) \<or> (97 \<le> c \<and> c \<le> 102)"

text \<open>The decimal number that a string of digits denotes.\<close>

definition decimal_value :: "pystr \<Rightarrow> nat" where
  "decimal_value ds = foldl (\<lambda>acc c. 10 * acc + (c - 48)) 0 ds"

section \<open>Test doubles\<close>

text \<open>
  Stand-ins for the collaborators: a tokenizer with one token for every character that is
  not whitespace, an embedding with two components, a language model whose answer the
  stand-in parser reads as \<open>album_data\<close>, and a lyrics source given as a function of the title.
\<close>

definition stub_tokenizer :: "pystr \<Rightarrow> error + int list" where
  "stub_tokenizer s = Inr (map int (filter (\<lambda>c. \<not> isspace c) s))"

definition stub_embedding :: "pystr \<Rightarrow> error + pyfloat list" where
  "stub_embedding s = Inr [PyFloat False (length s) 1, PyFloat True 1 2]"

text \<open>The fingerprint that the stand-in embedding gives to a list of token counts.\<close>

definition stub_fingerprint :: "int list \<Rightarrow> pystr" where
  "stub_fingerprint token_counts =
     md5_hexdigest (map of_nat (py_join [44] (map format_10f
       [PyFloat False (length (py_join [44] (map py_str_int token_counts))) 1,
        PyFloat True 1 2])))"

definition stub_response :: response where
  "stub_response =
     \<lparr>status_code = 200,
      json_body = Inr (PDict [(ascii ''choices'',
        PList [PDict [(ascii ''message'',
          PDict [(ascii ''content'', PStr (ascii ''```json {} ```''))])]])])\<rparr>"

definition stub_env :: "pyval list \<Rightarrow> pyval \<Rightarrow> (pyval \<Rightarrow> error + pyval list) \<Rightarrow> env" where
  "stub_env youtube_items album_data lyrics_source =
     \<lparr>youtube_scraper = (\<lambda>url. Inr youtube_items),
      openrouter_post = (\<lambda>artist_name. Inr stub_response),
      json_loads = (\<lambda>text. if text = ascii ''{}'' then Inr album_data else Inl JSONDecodeError),
      genius_scraper = (\<lambda>i song_title artist_name. lyrics_source song_title),
      tokenizer = stub_tokenizer,
      embedding_model = stub_embedding\<rparr>"

definition channel :: "string \<Rightarrow> pyval list" where
  "channel artist_name = [PDict [(ascii ''channelName'', PStr (ascii artist_name))]]"

definition album :: "string \<Rightarrow> string list \<Rightarrow> pyval" where
  "album title tracks =
     PDict [(ascii ''album_name'', PStr (ascii title)),
            (ascii ''songs'', PList (map (\<lambda>t. PStr (ascii t)) tracks))]"

definition lyrics_page :: "pystr \<Rightarrow> error + pyval list" where
  "lyrics_page text = Inr [PDict [(ascii ''url'', PStr (ascii ''https://genius.com'')),
                                 (ascii ''lyrics'', PStr text)]]"

text \<open>Lyrics that repeat one word \<open>n\<close> times, a space after each.\<close>

definition refrain :: "string \<Rightarrow> nat \<Rightarrow> pystr" where
  "refrain w n = concat (replicate n (ascii w @ [32]))"

text \<open>Two tracks, lyrics for the first only.\<close>

definition env_two_tracks :: env where
  "env_two_tracks =
     stub_env (channel ''Artist X'') (album ''Debut'' [''Song A'', ''Song B''])
       (\<lambda>t. if t = PStr (ascii ''Song A'') then lyrics_page (refrain ''la'' 50) else Inr [])"

text \<open>The metrics of one hundred tokens in fifty words, and a track without lyrics.\<close>

definition song_of_50_words :: "string \<Rightarrow> string \<Rightarrow> song" where
  "song_of_50_words title w =
     \<lparr>name = PStr (ascii title), lyrics_length_chars = 150, lyrics_length_words = 50,
      lyrics_length_tokens = 100, song_tokens_per_word = 2,
      lyrics_hash = md5_hexdigest (map of_nat (refrain w 50))\<rparr>"

definition song_without_lyrics :: "string \<Rightarrow> song" where
  "song_without_lyrics title =
     \<lparr>name = PStr (ascii title), lyrics_length_chars = 0, lyrics_length_words = 0,
      lyrics_length_tokens = 0, song_tokens_per_word = 0, lyrics_hash = md5_hexdigest []\<rparr>"

definition report_two_tracks :: report where
  "report_two_tracks =
     \<lparr>artist = PStr (ascii ''Artist X''), album_name = PStr (ascii ''Debut''),
      songs = [song_of_50_words ''Song A'' ''la'', song_without_lyrics ''Song B''],
      total_tokens_all_songs = 100, avg_tokens_per_song = 50\<rparr>"

text \<open>Another artist and album with other lyrics, whose scrape of the second track raises.\<close>

definition env_other_artist :: env where
  "env_other_artist =
     stub_env (channel ''Artist Y'') (album ''Second'' [''Intro'', ''Outro''])
       (\<lambda>t. if t = PStr (ascii ''Intro'') then lyrics_page (refrain ''do'' 50)
            else Inl ApifyError)"

definition report_other_artist :: report where
  "report_other_artist =
     \<lparr>artist = PStr (ascii ''Artist Y''), album_name = PStr (ascii ''Second''),
      songs = [song_of_50_words ''Intro'' ''do'', song_without_lyrics ''Outro''],
      total_tokens_all_songs = 100, avg_tokens_per_song = 50\<rparr>"

text \<open>Three tracks with 100, 50 and 0 tokens.\<close>

definition env_three_tracks :: env where
  "env_three_tracks =
     stub_env (channel ''Artist X'') (album ''Debut'' [''Song A'', ''Song B'', ''Song C''])
       (\<lambda>t. if t = PStr (ascii ''Song A'') then lyrics_page (refrain ''la'' 50)
            else if t = PStr (ascii ''Song B'') then lyrics_page (refrain ''la'' 25)
            else Inr [])"

text \<open>A lyrics page whose text has twelve characters.\<close>

definition env_short_lyrics :: env where
  "env_short_lyrics =
     stub_env (channel ''Artist X'') (album ''Debut'' [''Song A''])
       (\<lambda>t. lyrics_page (ascii ''lyrics for A''))"

text \<open>A language model that answers with an album without tracks.\<close>

definition env_no_tracks :: env where
  "env_no_tracks = stub_env (channel ''Artist X'') (album ''Debut'' []) (\<lambda>t. Inr [])"

text \<open>A language model whose answer the parser rejects.\<close>

definition env_unparsable :: env where
  "env_unparsable = env_no_tracks\<lparr>json_loads := (\<lambda>text. Inl JSONDecodeError)\<rparr>"

text \<open>A video item that carries neither \<open>channelName\<close> nor \<open>author\<close>.\<close>

definition env_no_name :: env where
  "env_no_name =
     stub_env [PDict [(ascii ''url'', PStr (ascii ''https://youtu.be/x''))]]
       (album ''Debut'' [''Song A'']) (\<lambda>t. Inr [])"

section \<open>Properties\<close>

subsection \<open>Helper lemmas\<close>

lemma split_from_empty_iff:
  "split_from w s = [] \<longleftrightarrow> w = [] \<and> (\<forall>c\<in>set s. isspace c)"
  by (induction s arbitrary: w) auto

lemma py_split_empty_iff: "py_split s = [] \<longleftrightarrow> (\<forall>c\<in>set s. isspace c)"
  by (simp add: py_split_def split_from_empty_iff)

lemma utf8_encode_ascii:
  "\<forall>c\<in>set s. c < 128 \<Longrightarrow> utf8_encode s = Inr (map of_nat s)"
  by (induction s) (auto simp: utf8_char_def)

lemma py_get_truthy_getitem:
  "py_get r k = Inr v \<Longrightarrow> truthy v \<Longrightarrow> py_getitem r k = Inr v"
  by (cases r) (auto split: option.splits)

lemma calculate_token_metrics_falsy:
  "\<not> truthy lyrics \<Longrightarrow> calculate_token_metrics tok lyrics = Inr zero_metrics"
  by (simp add: calculate_token_metrics_def zero_metrics_def)

text \<open>Strings and the test lyrics.\<close>

lemma replicate_num: "replicate (numeral v) x = x # replicate (numeral v - 1) x"
  by (simp add: numeral_eq_Suc)

lemma split_from_word:
  "\<forall>c\<in>set w. \<not> isspace c \<Longrightarrow> split_from acc (w @ rest) = split_from (acc @ w) rest"
  by (induction w arbitrary: acc) auto

lemma isspace_32: "isspace 32"
  by (simp add: isspace_def)

lemma split_from_refrain:
  assumes "\<forall>c\<in>set w. \<not> isspace c" and "w \<noteq> []"
  shows "split_from [] (concat (replicate n (w @ [32]))) = replicate n w"
proof (induction n)
  case 0
  show ?case by simp
next
  case (Suc n)
  have "split_from [] (concat (replicate (Suc n) (w @ [32])))
        = split_from [] (w @ (32 # concat (replicate n (w @ [32]))))"
    by simp
  also have "\<dots> = split_from w (32 # concat (replicate n (w @ [32])))"
    using assms(1) by (simp add: split_from_word)
  also have "\<dots> = w # split_from [] (concat (replicate n (w @ [32])))"
    using assms(2) by (simp add: isspace_32)
  finally show ?case using Suc by simp
qed

lemma filter_refrain:
  assumes "\<forall>c\<in>set w. \<not> isspace c"
  shows "filter (\<lambda>c. \<not> isspace c) (concat (replicate n (w @ [32]))) = concat (replicate n w)"
  using assms by (induction n) (auto simp: isspace_32)

lemma words_la: "\<forall>c\<in>set (ascii ''la''). \<not> isspace c \<and> c < 128" "ascii ''la'' \<noteq> []"
  by (simp_all add: ascii_def isspace_def)

lemma length_refrain: "length (refrain w n) = n * (length w + 1)"
  by (induction n) (simp_all add: refrain_def ascii_def)

lemma floor_rat_numeral: "\<lfloor>(numeral a / numeral b :: rat)\<rfloor> = numeral a div numeral b"
  using floor_divide_of_int_eq [of "numeral a" "numeral b", where ?'a = rat] by simp

lemmas float_eval = py_round2_def nearest_double_def binary_exponent_def bitlen.simps pow2_def
  round_half_even_def Let_def floor_rat_numeral


text \<open>The loop of \<open>run\<close> and the tracks' metrics.\<close>

lemma process_songs_complete:
  "track_metrics env a i ts = map Inr ms \<Longrightarrow>
   process_songs env a i ts (sd, tc) =
     Inr (sd @ map2 song_entry ts ms, tc @ map tokens ms)"
proof (induction ts arbitrary: i ms sd tc)
  case Nil
  then show ?case by simp
next
  case (Cons t ts)
  then obtain m ms' where ms: "ms = m # ms'"
    and m: "calculate_token_metrics (tokenizer env) (scrape_genius_lyrics env i t a) = Inr m"
    and rest: "track_metrics env a (Suc i) ts = map Inr ms'"
    by (cases ms) auto
  from Cons.IH [OF rest] m ms show ?case by simp
qed

lemma process_songs_sound:
  "process_songs env a i ts (sd, tc) = Inr (sd', tc') \<Longrightarrow>
   \<exists>ms. track_metrics env a i ts = map Inr ms
        \<and> sd' = sd @ map2 song_entry ts ms \<and> tc' = tc @ map tokens ms"
proof (induction ts arbitrary: i sd tc)
  case Nil
  then show ?case by simp
next
  case (Cons t ts)
  from Cons.prems obtain m where
    m: "calculate_token_metrics (tokenizer env) (scrape_genius_lyrics env i t a) = Inr m"
    and rec: "process_songs env a (Suc i) ts (sd @ [song_entry t m], tc @ [tokens m]) = Inr (sd', tc')"
    by (auto split: sum.splits)
  from Cons.IH [OF rec] obtain ms where
    "track_metrics env a (Suc i) ts = map Inr ms"
    "sd' = (sd @ [song_entry t m]) @ map2 song_entry ts ms"
    "tc' = (tc @ [tokens m]) @ map tokens ms"
    by blast
  with m have "track_metrics env a i (t # ts) = map Inr (m # ms)
        \<and> sd' = sd @ map2 song_entry (t # ts) (m # ms) \<and> tc' = tc @ map tokens (m # ms)"
    by simp
  then show ?case by blast
qed

lemma py_iter_len:
  "py_iter v = Inr ts \<Longrightarrow> py_len v = Inr (length ts) \<and> (truthy v \<longleftrightarrow> ts \<noteq> [])"
  by (cases v) auto

lemma average_tokens_iter:
  "py_iter v = Inr ts \<Longrightarrow>
   average_tokens v tot =
     Inr (if ts = [] then 0 else py_round2 (nearest_double tot (length ts)))"
  by (auto simp: average_tokens_def py_truediv_def dest!: py_iter_len)

lemma run_sound:
  assumes "run env url = Inr (rep, fp)"
  shows "\<exists>a alb sl ts ms.
           get_artist_from_youtube env url = Inr a
         \<and> get_first_album_songs env a = Inr (alb, sl)
         \<and> py_iter sl = Inr ts
         \<and> track_metrics env a 1 ts = map Inr ms
         \<and> generate_embedding_hash (embedding_model env) (map (\<lambda>m. int (tokens m)) ms) = Inr fp
         \<and> rep = \<lparr>artist = a, album_name = alb, songs = map2 song_entry ts ms,
                  total_tokens_all_songs = sum_list (map tokens ms),
                  avg_tokens_per_song =
                    (if ts = [] then 0
                     else py_round2 (nearest_double (sum_list (map tokens ms)) (length ts)))\<rparr>"
proof -
  from assms obtain a where a: "get_artist_from_youtube env url = Inr a"
    by (auto simp: run_def split: sum.splits)
  from assms a obtain alb sl where al: "get_first_album_songs env a = Inr (alb, sl)"
    by (auto simp: run_def split: sum.splits)
  from assms a al obtain ts where ts: "py_iter sl = Inr ts"
    by (auto simp: run_def split: sum.splits)
  from assms a al ts obtain sd tc where
    ps: "process_songs env a 1 ts ([], []) = Inr (sd, tc)"
    by (auto simp: run_def split: sum.splits)
  from process_songs_sound [OF ps] obtain ms where
    ms: "track_metrics env a 1 ts = map Inr ms" "sd = map2 song_entry ts ms" "tc = map tokens ms"
    by auto
  from assms a al ts ps ms average_tokens_iter [OF ts] show ?thesis
    by (auto simp: run_def Let_def comp_def split: sum.splits)
qed

lemma run_complete:
  assumes "get_artist_from_youtube env url = Inr a"
    and "get_first_album_songs env a = Inr (alb, sl)"
    and "py_iter sl = Inr ts"
    and "track_metrics env a 1 ts = map Inr ms"
    and "generate_embedding_hash (embedding_model env) (map (\<lambda>m. int (tokens m)) ms) = Inr fp"
  shows "run env url =
           Inr (\<lparr>artist = a, album_name = alb, songs = map2 song_entry ts ms,
                 total_tokens_all_songs = sum_list (map tokens ms),
                 avg_tokens_per_song =
                   (if ts = [] then 0
                    else py_round2 (nearest_double (sum_list (map tokens ms)) (length ts)))\<rparr>,
                fp)"
  using assms process_songs_complete [OF assms(4), of "[]" "[]"] average_tokens_iter [OF assms(3)]
  by (simp add: run_def comp_def Let_def)

text \<open>The fingerprint: digits, joins and digests.\<close>


lemma digits_are_digits: "\<forall>c\<in>set (digits n). is_digit c"
proof (induction n rule: digits.induct)
  case (1 n)
  show ?case
  proof (cases "n < 10")
    case True
    then show ?thesis by (subst digits.simps) (simp add: is_digit_def)
  next
    case False
    have "n mod 10 < 10" by simp
    then have "is_digit (48 + n mod 10)" unfolding is_digit_def by linarith
    with 1 False show ?thesis by (subst digits.simps) simp
  qed
qed

lemma digits_nonempty: "digits n \<noteq> []"
  by (subst digits.simps) simp

lemma length_frac10: "length (frac10 r) = 10"
  by (simp add: frac10_def)

lemma frac10_are_digits: "\<forall>c\<in>set (frac10 r). is_digit c"
proof -
  have "is_digit (48 + k mod 10)" for k :: nat
  proof -
    have "k mod 10 < 10" by simp
    then show ?thesis unfolding is_digit_def by linarith
  qed
  then show ?thesis by (auto simp: frac10_def)
qed

lemma format_10f_shape:
  "\<exists>sg ip fr. format_10f x = sg @ ip @ [46] @ fr
      \<and> (sg = [] \<or> sg = [45]) \<and> ip \<noteq> [] \<and> (\<forall>c\<in>set ip. is_digit c)
      \<and> length fr = 10 \<and> (\<forall>c\<in>set fr. is_digit c)"
proof (cases x)
  case (PyFloat s m e)
  define n where "n = nat (round_half_even (of_nat m * 10 ^ 10 / 2 ^ e))"
  have "format_10f x = (if s then [45] else []) @ digits (n div 10 ^ 10) @ [46] @ frac10 (n mod 10 ^ 10)"
    by (simp add: PyFloat n_def Let_def)
  moreover have "(if s then [45] else []) = [] \<or> (if s then [45] else []) = [45::nat]" by simp
  ultimately show ?thesis
    using digits_nonempty digits_are_digits length_frac10 frac10_are_digits by blast
qed

lemma format_10f_ascii: "\<forall>c\<in>set (format_10f x). c < 128"
proof -
  from format_10f_shape [of x] obtain sg ip fr where
    "format_10f x = sg @ ip @ [46] @ fr" "sg = [] \<or> sg = [45]"
    "\<forall>c\<in>set ip. is_digit c" "\<forall>c\<in>set fr. is_digit c"
    by blast
  then show ?thesis by (auto simp: is_digit_def)
qed

lemma py_join_spec: "py_join sep ps = spec_join sep ps"
  by (induction sep ps rule: py_join.induct) (simp_all add: spec_join_def)

lemma py_join_ascii:
  "\<forall>c\<in>set sep. c < 128 \<Longrightarrow> \<forall>p\<in>set ps. \<forall>c\<in>set p. c < 128 \<Longrightarrow>
   \<forall>c\<in>set (py_join sep ps). c < (128::nat)"
  by (induction sep ps rule: py_join.induct) auto

lemma formatted_embedding_ascii: "\<forall>c\<in>set (py_join [44] (map format_10f v)). c < 128"
  by (rule py_join_ascii) (auto simp: format_10f_ascii)

lemma generate_embedding_hash_eq:
  "generate_embedding_hash emb tc =
     (case emb (py_join [44] (map py_str_int tc)) of
        Inl e \<Rightarrow> Inl e
      | Inr v \<Rightarrow> Inr (md5_hexdigest (map of_nat (py_join [44] (map format_10f v)))))"
  by (simp add: generate_embedding_hash_def utf8_encode_ascii [OF formatted_embedding_ascii]
      split: sum.splits)

lemma generate_embedding_hash_spec:
  "generate_embedding_hash emb tc = fingerprint_spec emb tc"
  by (simp add: generate_embedding_hash_eq fingerprint_spec_def py_join_spec ascii_def
      split: sum.splits)

lemma length_md5_digest: "length (md5_digest msg) = 16"
  by (simp add: md5_digest_def le_bytes_def split: prod.splits)

lemma length_hexdigest: "length (hexdigest bs) = 2 * length bs"
  by (induction bs) (simp_all add: hexdigest_def)

lemma length_md5_hexdigest: "length (md5_hexdigest msg) = 32"
  by (simp add: md5_hexdigest_def length_hexdigest length_md5_digest)

lemma hex_digit_lower: "n < 16 \<Longrightarrow> is_lower_hex (hex_digit n)"
  unfolding is_lower_hex_def hex_digit_def by (cases "n < 10") simp_all

lemma hexdigest_lower: "\<forall>c\<in>set (hexdigest bs). is_lower_hex c"
proof -
  have "unat b div 16 < 16" for b :: byte
    using unsigned_less [of b, where ?'a = nat] by simp
  then show ?thesis
    by (auto simp: hexdigest_def intro!: hex_digit_lower)
qed

lemma md5_hexdigest_lower: "\<forall>c\<in>set (md5_hexdigest msg). is_lower_hex c"
  by (simp add: md5_hexdigest_def hexdigest_lower)

text \<open>The accuracy of a rounded quotient.\<close>

lemma bitlen_bounds: "0 < n \<Longrightarrow> 2 ^ (bitlen n - 1) \<le> n \<and> n < 2 ^ bitlen n"
proof (induction n rule: bitlen.induct)
  case (1 n)
  then have bl: "bitlen n = Suc (bitlen (n div 2))"
    by (subst bitlen.simps) simp
  show ?case
  proof (cases "n div 2 = 0")
    case True
    with 1 have "n = 1" by presburger
    moreover have "bitlen 0 = 0" by (subst bitlen.simps) simp
    ultimately show ?thesis using bl by simp
  next
    case False
    with 1 have ih: "2 ^ (bitlen (n div 2) - 1) \<le> n div 2" "n div 2 < 2 ^ bitlen (n div 2)"
      by simp_all
    from False have pos: "0 < bitlen (n div 2)"
      by (subst bitlen.simps) simp
    then have "(2::nat) ^ bitlen (n div 2) = 2 * 2 ^ (bitlen (n div 2) - 1)"
      by (cases "bitlen (n div 2)") simp_all
    with ih(1) have lo: "2 ^ bitlen (n div 2) \<le> n" by presburger
    from ih(2) have hi: "n < 2 * 2 ^ bitlen (n div 2)" by presburger
    from lo hi bl show ?thesis by simp
  qed
qed

lemma pow2_powi: "pow2 k = 2 powi k"
  by (simp add: pow2_def power_int_def field_simps)

lemma pow2_pos: "0 < pow2 k"
  by (simp add: pow2_def)

lemma pow2_add: "pow2 (j + k) = pow2 j * pow2 k"
  by (simp add: pow2_powi power_int_add)

lemma pow2_nat: "pow2 (int n) = 2 ^ n"
  by (simp add: pow2_def)

lemma binary_exponent_le:
  assumes "0 < a" "0 < b"
  shows "pow2 (binary_exponent a b) * of_nat b \<le> of_nat a"
proof (cases "pow2 (int (bitlen a) - int (bitlen b)) * of_nat b \<le> (of_nat a :: rat)")
  case True
  then show ?thesis by (simp add: binary_exponent_def)
next
  case False
  then have e: "binary_exponent a b = int (bitlen a) - int (bitlen b) - 1"
    by (simp add: binary_exponent_def)
  from bitlen_bounds [OF assms(1)] have a: "2 ^ (bitlen a - 1) \<le> a" by simp
  from bitlen_bounds [OF assms(2)] have b: "b \<le> 2 ^ bitlen b" by simp
  from assms(1) have la: "0 < bitlen a" by (subst bitlen.simps) simp
  have "pow2 (binary_exponent a b) * of_nat b \<le> pow2 (binary_exponent a b) * of_nat (2 ^ bitlen b)"
    using b pow2_pos [of "binary_exponent a b"] by (simp del: of_nat_power)
  also have "\<dots> = pow2 (binary_exponent a b) * pow2 (int (bitlen b))"
    by (simp add: pow2_nat)
  also have "\<dots> = pow2 (int (bitlen a - 1))"
    using la by (simp add: e pow2_add [symmetric] of_nat_diff)
  also have "\<dots> = of_nat (2 ^ (bitlen a - 1))"
    by (simp add: pow2_nat)
  also have "\<dots> \<le> of_nat a"
    using a by (simp del: of_nat_power)
  finally show ?thesis .
qed

lemma round_half_even_err: "\<bar>of_int (round_half_even x) - x\<bar> \<le> 1 / 2"
proof -
  have "of_int \<lfloor>x\<rfloor> \<le> x" "x < of_int \<lfloor>x\<rfloor> + 1" by linarith+
  then show ?thesis
    by (auto simp: round_half_even_def Let_def)
qed

lemma round_half_even_nonneg: "0 \<le> x \<Longrightarrow> 0 \<le> round_half_even x"
  by (auto simp: round_half_even_def Let_def)

lemma nearest_double_nonneg: "0 \<le> nearest_double a b"
proof (cases "a = 0")
  case True
  then show ?thesis by (simp add: nearest_double_def)
next
  case False
  define p where "p = pow2 (52 - binary_exponent a b)"
  have p: "0 < p" by (simp add: p_def pow2_pos)
  then have "0 \<le> of_nat a / of_nat b * p" by simp
  then have "0 \<le> round_half_even (of_nat a / of_nat b * p)"
    by (rule round_half_even_nonneg)
  then have "0 \<le> (of_int (round_half_even (of_nat a / of_nat b * p)) :: rat) / p"
    using p by simp
  moreover have "nearest_double a b = of_int (round_half_even (of_nat a / of_nat b * p)) / p"
    using False unfolding nearest_double_def Let_def p_def by simp
  ultimately show ?thesis by simp
qed

lemma nearest_double_err:
  assumes "0 < a" "0 < b"
  shows "\<bar>nearest_double a b - of_nat a / of_nat b\<bar> \<le> of_nat a / of_nat b / 2 ^ 53"
proof -
  define e where "e = binary_exponent a b"
  define q :: rat where "q = of_nat a / of_nat b"
  define p where "p = pow2 (52 - e)"
  define M where "M = round_half_even (q * p)"
  have p: "0 < p" by (simp add: p_def pow2_pos)
  have nd: "nearest_double a b = of_int M / p"
    using assms unfolding nearest_double_def Let_def M_def p_def q_def e_def by simp
  have "\<bar>of_int M - q * p\<bar> \<le> 1 / 2"
    unfolding M_def by (rule round_half_even_err)
  then have "\<bar>of_int M - q * p\<bar> / p \<le> 1 / 2 / p"
    using p by (intro divide_right_mono) simp_all
  moreover have "\<bar>of_int M - q * p\<bar> / p = \<bar>of_int M / p - q\<bar>"
  proof -
    have "of_int M / p - q = (of_int M - q * p) / p"
      using p by (simp add: field_simps)
    then show ?thesis using p by (simp add: abs_divide)
  qed
  ultimately have err: "\<bar>nearest_double a b - q\<bar> \<le> 1 / 2 / p"
    by (simp add: nd)
  have "pow2 e * p = pow2 52"
    by (simp add: p_def pow2_add [symmetric])
  then have pe: "pow2 e * p = 2 ^ 52"
    by (simp add: pow2_def)
  have "pow2 e * of_nat b \<le> of_nat a"
    unfolding e_def by (rule binary_exponent_le [OF assms])
  then have "pow2 e \<le> q"
    using assms by (simp add: q_def pos_le_divide_eq)
  then have "pow2 e * p \<le> q * p"
    using p by simp
  then have "2 ^ 52 \<le> q * p" by (simp add: pe)
  then have "1 / 2 \<le> q * p / 2 ^ 53" by simp
  then have "1 / 2 / p \<le> q / 2 ^ 53"
    using p by (simp add: field_simps)
  with err show ?thesis by (simp add: q_def)
qed

lemma two_decimals:
  assumes "0 < b" "200 * a < 2 ^ 53"
  defines "K \<equiv> round_half_even (100 * nearest_double a b)"
  shows "0 \<le> K" and "\<bar>of_int K - 100 * of_nat a / of_nat b\<bar> \<le> (1 / 2 :: rat)"
proof -
  show "0 \<le> K"
    unfolding K_def by (rule round_half_even_nonneg) (simp add: nearest_double_nonneg)
  define x :: rat where "x = 100 * of_nat a / of_nat b"
  define x' :: rat where "x' = 100 * nearest_double a b"
  define N :: int where "N = 2 * int b * K - 200 * int a"
  have b: "(0::rat) < of_nat b" using assms(1) by simp
  have close: "\<bar>x' - x\<bar> < 1 / (2 * of_nat b)"
  proof (cases "a = 0")
    case True
    then show ?thesis using b by (simp add: x_def x'_def nearest_double_def)
  next
    case False
    then have "0 < a" by simp
    then have "\<bar>nearest_double a b - of_nat a / of_nat b\<bar> \<le> of_nat a / of_nat b / 2 ^ 53"
      using assms(1) by (rule nearest_double_err)
    then have "100 * \<bar>nearest_double a b - of_nat a / of_nat b\<bar> \<le> 100 * (of_nat a / of_nat b / 2 ^ 53)"
      by simp
    moreover have "\<bar>x' - x\<bar> = 100 * \<bar>nearest_double a b - of_nat a / of_nat b\<bar>"
    proof -
      have "x' - x = 100 * (nearest_double a b - of_nat a / of_nat b)"
        by (simp add: x_def x'_def algebra_simps)
      then show ?thesis by (simp only: abs_mult abs_numeral)
    qed
    moreover have "100 * (of_nat a / of_nat b / 2 ^ 53) < 1 / (2 * (of_nat b :: rat))"
    proof -
      have "(of_nat (200 * a) :: rat) < of_nat (2 ^ 53)"
        using assms(2) by (simp only: of_nat_less_iff)
      then have "200 * (of_nat a :: rat) < 2 ^ 53" by simp
      then show ?thesis using b by (simp add: field_simps)
    qed
    ultimately show ?thesis by simp
  qed
  have "\<bar>of_int K - x'\<bar> \<le> 1 / 2"
    unfolding K_def x'_def by (rule round_half_even_err)
  with close have lt: "\<bar>of_int K - x\<bar> < 1 / 2 + 1 / (2 * of_nat b)" by linarith
  have N: "(of_int N :: rat) = 2 * of_nat b * (of_int K - x)"
    using b by (simp add: N_def x_def field_simps)
  have "\<bar>of_int N :: rat\<bar> = 2 * of_nat b * \<bar>of_int K - x\<bar>"
    using b by (simp add: N abs_mult)
  also have "\<dots> < 2 * of_nat b * (1 / 2 + 1 / (2 * of_nat b))"
    using lt b by simp
  also have "\<dots> = of_nat b + 1"
    using b by (simp add: field_simps)
  finally have "(of_int \<bar>N\<bar> :: rat) < of_int (int b + 1)" by simp
  then have "\<bar>N\<bar> < int b + 1" by (simp only: of_int_less_iff)
  then have "\<bar>N\<bar> \<le> int b" by simp
  then have "(of_int \<bar>N\<bar> :: rat) \<le> of_int (int b)" by (simp only: of_int_le_iff)
  then have "2 * of_nat b * \<bar>of_int K - x\<bar> \<le> (of_nat b :: rat)"
    using b by (simp add: N abs_mult)
  then have "\<bar>of_int K - x\<bar> \<le> 1 / 2"
    using b by (simp add: field_simps)
  then show "\<bar>of_int K - 100 * of_nat a / of_nat b\<bar> \<le> (1 / 2 :: rat)"
    by (simp add: x_def)
qed

lemma py_round2_nonneg:
  "0 \<le> x \<Longrightarrow> py_round2 x = nearest_double (nat (round_half_even (x * 100))) 100"
  using round_half_even_nonneg [of "x * 100"] by (simp add: py_round2_def Let_def)

text \<open>Two digests, computed step by step.\<close>

lemma upt_from_0: "[0..<numeral n] = 0 # [Suc 0..<numeral n]"
  by (simp add: upt_rec)

lemma upt_from_1:
  "[Suc 0..<numeral n] = (if Suc 0 < numeral n then Suc 0 # [2..<numeral n] else [])"
  by (simp add: upt_rec [of "Suc 0"] numeral_2_eq_2)

lemmas upt_eval = upt_from_0 upt_from_1

lemma md5_empty_pad: "md5_pad [] = [128, 0, 0, 0, 0, 0, 0, 0, 0, 0, 0, 0, 0, 0, 0, 0, 0, 0, 0, 0, 0, 0, 0, 0, 0, 0, 0, 0, 0, 0, 0, 0, 0, 0, 0, 0, 0, 0, 0, 0, 0, 0, 0, 0, 0, 0, 0, 0, 0, 0, 0, 0, 0, 0, 0, 0, 0, 0, 0, 0, 0, 0, 0, 0]"
  by (simp add: md5_pad_def le_bytes_def replicate_num upt_eval)

lemma md5_empty_words: "map le_word (chunks 4 [128, 0, 0, 0, 0, 0, 0, 0, 0, 0, 0, 0, 0, 0, 0, 0, 0, 0, 0, 0, 0, 0, 0, 0, 0, 0, 0, 0, 0, 0, 0, 0, 0, 0, 0, 0, 0, 0, 0, 0, 0, 0, 0, 0, 0, 0, 0, 0, 0, 0, 0, 0, 0, 0, 0, 0, 0, 0, 0, 0, 0, 0, 0, 0]) = [128, 0, 0, 0, 0, 0, 0, 0, 0, 0, 0, 0, 0, 0, 0, 0]"
  by (simp add: chunks_def upt_eval)

lemma md5_empty_rounds: "foldl (md5_step [128, 0, 0, 0, 0, 0, 0, 0, 0, 0, 0, 0, 0, 0, 0, 0]) (0x67452301, 0xefcdab89, 0x98badcfe, 0x10325476) [0..<64] = (1917254355, 350508294, 4283343851, 1846584438)"
  by (simp add: upt_eval md5_K_def md5_S_def rotl32_def)

lemma md5_empty_block: "md5_block (0x67452301, 0xefcdab89, 0x98badcfe, 0x10325476) [128, 0, 0, 0, 0, 0, 0, 0, 0, 0, 0, 0, 0, 0, 0, 0, 0, 0, 0, 0, 0, 0, 0, 0, 0, 0, 0, 0, 0, 0, 0, 0, 0, 0, 0, 0, 0, 0, 0, 0, 0, 0, 0, 0, 0, 0, 0, 0, 0, 0, 0, 0, 0, 0, 0, 0, 0, 0, 0, 0, 0, 0, 0, 0] = (3649838548, 78774415, 2550759657, 2118318316)"
  by (simp add: md5_block_def md5_empty_words md5_empty_rounds)

lemma md5_empty_digest: "md5_digest [] = [212, 29, 140, 217, 143, 0, 178, 4, 233, 128, 9, 152, 236, 248, 66, 126]"
  by (simp add: md5_digest_def md5_empty_pad chunks_def md5_empty_block le_bytes_def upt_eval)

lemma md5_empty_hex: "md5_hexdigest [] = ascii ''d41d8cd98f00b204e9800998ecf8427e''"
  by (simp add: md5_hexdigest_def md5_empty_digest hexdigest_def hex_digit_def ascii_def)

lemma md5_lalala_pad: "md5_pad [76, 97, 32, 108, 97, 32, 108, 97] = [76, 97, 32, 108, 97, 32, 108, 97, 128, 0, 0, 0, 0, 0, 0, 0, 0, 0, 0, 0, 0, 0, 0, 0, 0, 0, 0, 0, 0, 0, 0, 0, 0, 0, 0, 0, 0, 0, 0, 0, 0, 0, 0, 0, 0, 0, 0, 0, 0, 0, 0, 0, 0, 0, 0, 0, 64, 0, 0, 0, 0, 0, 0, 0]"
  by (simp add: md5_pad_def le_bytes_def replicate_num upt_eval)

lemma md5_lalala_words: "map le_word (chunks 4 [76, 97, 32, 108, 97, 32, 108, 97, 128, 0, 0, 0, 0, 0, 0, 0, 0, 0, 0, 0, 0, 0, 0, 0, 0, 0, 0, 0, 0, 0, 0, 0, 0, 0, 0, 0, 0, 0, 0, 0, 0, 0, 0, 0, 0, 0, 0, 0, 0, 0, 0, 0, 0, 0, 0, 0, 64, 0, 0, 0, 0, 0, 0, 0]) = [1814061388, 1634476129, 128, 0, 0, 0, 0, 0, 0, 0, 0, 0, 0, 0, 64, 0]"
  by (simp add: chunks_def upt_eval)

lemma md5_lalala_rounds: "foldl (md5_step [1814061388, 1634476129, 128, 0, 0, 0, 0, 0, 0, 0, 0, 0, 0, 0, 64, 0]) (0x67452301, 0xefcdab89, 0x98badcfe, 0x10325476) [0..<64] = (2062064591, 1291466915, 445413198, 3012973674)"
  by (simp add: upt_eval md5_K_def md5_S_def rotl32_def)

lemma md5_lalala_block: "md5_block (0x67452301, 0xefcdab89, 0x98badcfe, 0x10325476) [76, 97, 32, 108, 97, 32, 108, 97, 128, 0, 0, 0, 0, 0, 0, 0, 0, 0, 0, 0, 0, 0, 0, 0, 0, 0, 0, 0, 0, 0, 0, 0, 0, 0, 0, 0, 0, 0, 0, 0, 0, 0, 0, 0, 0, 0, 0, 0, 0, 0, 0, 0, 0, 0, 0, 0, 64, 0, 0, 0, 0, 0, 0, 0] = (3794648784, 1019733036, 3007796300, 3284707552)"
  by (simp add: md5_block_def md5_lalala_words md5_lalala_rounds)

lemma md5_lalala_digest: "md5_digest [76, 97, 32, 108, 97, 32, 108, 97] = [208, 190, 45, 226, 44, 228, 199, 60, 76, 84, 71, 179, 224, 168, 200, 195]"
  by (simp add: md5_digest_def md5_lalala_pad chunks_def md5_lalala_block le_bytes_def upt_eval)

lemma md5_lalala_hex: "md5_hexdigest [76, 97, 32, 108, 97, 32, 108, 97] = ascii ''d0be2de22ce4c73c4c5447b3e0a8c8c3''"
  by (simp add: md5_hexdigest_def md5_lalala_digest hexdigest_def hex_digit_def ascii_def)


text \<open>Digests of two fingerprints of the test embedding.\<close>

lemma md5_fp_120_85_pad: "md5_pad [51, 46, 48, 48, 48, 48, 48, 48, 48, 48, 48, 48, 44, 45, 48, 46, 50, 53, 48, 48, 48, 48, 48, 48, 48, 48] = [51, 46, 48, 48, 48, 48, 48, 48, 48, 48, 48, 48, 44, 45, 48, 46, 50, 53, 48, 48, 48, 48, 48, 48, 48, 48, 128, 0, 0, 0, 0, 0, 0, 0, 0, 0, 0, 0, 0, 0, 0, 0, 0, 0, 0, 0, 0, 0, 0, 0, 0, 0, 0, 0, 0, 0, 208, 0, 0, 0, 0, 0, 0, 0]"
  by (simp add: md5_pad_def le_bytes_def replicate_num upt_eval)

lemma md5_fp_120_85_words: "map le_word (chunks 4 [51, 46, 48, 48, 48, 48, 48, 48, 48, 48, 48, 48, 44, 45, 48, 46, 50, 53, 48, 48, 48, 48, 48, 48, 48, 48, 128, 0, 0, 0, 0, 0, 0, 0, 0, 0, 0, 0, 0, 0, 0, 0, 0, 0, 0, 0, 0, 0, 0, 0, 0, 0, 0, 0, 0, 0, 208, 0, 0, 0, 0, 0, 0, 0]) = [808463923, 808464432, 808464432, 774909228, 808465714, 808464432, 8400944, 0, 0, 0, 0, 0, 0, 0, 208, 0]"
  by (simp add: chunks_def upt_eval)

lemma md5_fp_120_85_rounds: "foldl (md5_step [808463923, 808464432, 808464432, 774909228, 808465714, 808464432, 8400944, 0, 0, 0, 0, 0, 0, 0, 208, 0]) (0x67452301, 0xefcdab89, 0x98badcfe, 0x10325476) [0..<64] = (2578936863, 3213137323, 409135290, 121138474)"
  by (simp add: upt_eval md5_K_def md5_S_def rotl32_def)

lemma md5_fp_120_85_block: "md5_block (0x67452301, 0xefcdab89, 0x98badcfe, 0x10325476) [51, 46, 48, 48, 48, 48, 48, 48, 48, 48, 48, 48, 44, 45, 48, 46, 50, 53, 48, 48, 48, 48, 48, 48, 48, 48, 128, 0, 0, 0, 0, 0, 0, 0, 0, 0, 0, 0, 0, 0, 0, 0, 0, 0, 0, 0, 0, 0, 0, 0, 0, 0, 0, 0, 0, 0, 208, 0, 0, 0, 0, 0, 0, 0] = (16553760, 2941403444, 2971518392, 392872352)"
  by (simp add: md5_block_def md5_fp_120_85_words md5_fp_120_85_rounds)

lemma md5_fp_120_85_digest: "md5_digest [51, 46, 48, 48, 48, 48, 48, 48, 48, 48, 48, 48, 44, 45, 48, 46, 50, 53, 48, 48, 48, 48, 48, 48, 48, 48] = [32, 151, 252, 0, 52, 65, 82, 175, 184, 197, 29, 177, 160, 193, 106, 23]"
  by (simp add: md5_digest_def md5_fp_120_85_pad chunks_def md5_fp_120_85_block le_bytes_def upt_eval)

lemma md5_fp_120_85_hex: "md5_hexdigest [51, 46, 48, 48, 48, 48, 48, 48, 48, 48, 48, 48, 44, 45, 48, 46, 50, 53, 48, 48, 48, 48, 48, 48, 48, 48] = ascii ''2097fc00344152afb8c51db1a0c16a17''"
  by (simp add: md5_hexdigest_def md5_fp_120_85_digest hexdigest_def hex_digit_def ascii_def)

lemma md5_fp_none_pad: "md5_pad [48, 46, 48, 48, 48, 48, 48, 48, 48, 48, 48, 48, 44, 45, 48, 46, 50, 53, 48, 48, 48, 48, 48, 48, 48, 48] = [48, 46, 48, 48, 48, 48, 48, 48, 48, 48, 48, 48, 44, 45, 48, 46, 50, 53, 48, 48, 48, 48, 48, 48, 48, 48, 128, 0, 0, 0, 0, 0, 0, 0, 0, 0, 0, 0, 0, 0, 0, 0, 0, 0, 0, 0, 0, 0, 0, 0, 0, 0, 0, 0, 0, 0, 208, 0, 0, 0, 0, 0, 0, 0]"
  by (simp add: md5_pad_def le_bytes_def replicate_num upt_eval)

lemma md5_fp_none_words: "map le_word (chunks 4 [48, 46, 48, 48, 48, 48, 48, 48, 48, 48, 48, 48, 44, 45, 48, 46, 50, 53, 48, 48, 48, 48, 48, 48, 48, 48, 128, 0, 0, 0, 0, 0, 0, 0, 0, 0, 0, 0, 0, 0, 0, 0, 0, 0, 0, 0, 0, 0, 0, 0, 0, 0, 0, 0, 0, 0, 208, 0, 0, 0, 0, 0, 0, 0]) = [808463920, 808464432, 808464432, 774909228, 808465714, 808464432, 8400944, 0, 0, 0, 0, 0, 0, 0, 208, 0]"
  by (simp add: chunks_def upt_eval)

lemma md5_fp_none_rounds: "foldl (md5_step [808463920, 808464432, 808464432, 774909228, 808465714, 808464432, 8400944, 0, 0, 0, 0, 0, 0, 0, 208, 0]) (0x67452301, 0xefcdab89, 0x98badcfe, 0x10325476) [0..<64] = (2471289597, 657329923, 2372122437, 1342956264)"
  by (simp add: upt_eval md5_K_def md5_S_def rotl32_def)

lemma md5_fp_none_block: "md5_block (0x67452301, 0xefcdab89, 0x98badcfe, 0x10325476) [48, 46, 48, 48, 48, 48, 48, 48, 48, 48, 48, 48, 44, 45, 48, 46, 50, 53, 48, 48, 48, 48, 48, 48, 48, 48, 128, 0, 0, 0, 0, 0, 0, 0, 0, 0, 0, 0, 0, 0, 0, 0, 0, 0, 0, 0, 0, 0, 0, 0, 0, 0, 0, 0, 0, 0, 208, 0, 0, 0, 0, 0, 0, 0] = (4203873790, 385596044, 639538243, 1614690142)"
  by (simp add: md5_block_def md5_fp_none_words md5_fp_none_rounds)

lemma md5_fp_none_digest: "md5_digest [48, 46, 48, 48, 48, 48, 48, 48, 48, 48, 48, 48, 44, 45, 48, 46, 50, 53, 48, 48, 48, 48, 48, 48, 48, 48] = [254, 5, 146, 250, 140, 186, 251, 22, 67, 148, 30, 38, 94, 55, 62, 96]"
  by (simp add: md5_digest_def md5_fp_none_pad chunks_def md5_fp_none_block le_bytes_def upt_eval)

lemma md5_fp_none_hex: "md5_hexdigest [48, 46, 48, 48, 48, 48, 48, 48, 48, 48, 48, 48, 44, 45, 48, 46, 50, 53, 48, 48, 48, 48, 48, 48, 48, 48] = ascii ''fe0592fa8cbafb1643941e265e373e60''"
  by (simp add: md5_hexdigest_def md5_fp_none_digest hexdigest_def hex_digit_def ascii_def)


lemmas format_eval = round_half_even_def Let_def floor_rat_numeral digits.simps frac10_def upt_eval

lemma stub_fingerprint_120_85:
  "generate_embedding_hash stub_embedding [120, 85] = Inr (ascii ''2097fc00344152afb8c51db1a0c16a17'')"
  by (simp add: generate_embedding_hash_eq stub_embedding_def py_str_int_def format_eval
      ascii_def md5_fp_120_85_hex)

lemma stub_fingerprint_none:
  "generate_embedding_hash stub_embedding [] = Inr (ascii ''fe0592fa8cbafb1643941e265e373e60'')"
  by (simp add: generate_embedding_hash_eq stub_embedding_def format_eval
      ascii_def md5_fp_none_hex)

text \<open>Metrics of a string; the report of a finished run.\<close>

lemma utf8_lalala:
  "utf8_encode (ascii ''La la la'') = Inr [76, 97, 32, 108, 97, 32, 108, 97]"
  by (simp add: ascii_def utf8_char_def)

lemma calculate_token_metrics_str:
  assumes "text \<noteq> []" "tok text = Inr toks" "utf8_encode text = Inr bs"
  shows "calculate_token_metrics tok (PStr text) =
           Inr \<lparr>chars = length text, words = length (py_split text), tokens = length toks,
                tokens_per_word =
                  (if py_split text = [] then 0
                   else py_round2 (nearest_double (length toks) (length (py_split text)))),
                hash = md5_hexdigest bs\<rparr>"
  using assms by (simp add: calculate_token_metrics_def py_truediv_def Let_def)

lemma rounded_quotient:
  assumes "0 < b" "200 * a < 2 ^ 53"
  shows "\<exists>K. py_round2 (nearest_double a b) = nearest_double K 100
           \<and> \<bar>of_nat K - 100 * of_nat a / of_nat b\<bar> \<le> (1 / 2 :: rat)"
proof -
  define k where "k = round_half_even (100 * nearest_double a b)"
  from two_decimals [OF assms] have k: "0 \<le> k" "\<bar>of_int k - 100 * of_nat a / of_nat b\<bar> \<le> (1 / 2 :: rat)"
    by (simp_all add: k_def)
  have "py_round2 (nearest_double a b) = nearest_double (nat k) 100"
    by (simp add: py_round2_nonneg nearest_double_nonneg k_def mult.commute)
  moreover from k have "\<bar>of_nat (nat k) - 100 * of_nat a / of_nat b\<bar> \<le> (1 / 2 :: rat)"
    by simp
  ultimately show ?thesis by blast
qed


lemma length_track_metrics: "length (track_metrics env a i ts) = length ts"
  by (induction ts arbitrary: i) simp_all

lemma nth_track_metrics:
  "j < length ts \<Longrightarrow>
   track_metrics env a i ts ! j =
     calculate_token_metrics (tokenizer env) (scrape_genius_lyrics env (i + j) (ts ! j) a)"
proof (induction ts arbitrary: i j)
  case Nil
  then show ?case by simp
next
  case (Cons t ts)
  show ?case
  proof (cases j)
    case 0
    then show ?thesis by simp
  next
    case (Suc j')
    with Cons.prems have "j' < length ts" by simp
    from Cons.IH [OF this, of "Suc i"] Suc show ?thesis by simp
  qed
qed

lemma retrieval_fails_None:
  "retrieval_fails env i t a \<Longrightarrow> scrape_genius_lyrics env i t a = PNone"
  by (auto simp: retrieval_fails_def scrape_genius_lyrics_def split: sum.splits list.splits)

lemma all_Inr_map:
  "\<forall>j<length xs. \<exists>m. xs ! j = Inr m \<Longrightarrow> \<exists>ms. xs = map Inr ms"
proof (induction xs)
  case Nil
  then show ?case by simp
next
  case (Cons x xs)
  from Cons.prems have "\<exists>m. (x # xs) ! 0 = Inr m" by blast
  then obtain m where m: "x = Inr m" by auto
  have "\<forall>j<length xs. \<exists>m. xs ! j = Inr m"
  proof (intro allI impI)
    fix j assume "j < length xs"
    then have "Suc j < length (x # xs)" by simp
    with Cons.prems have "\<exists>m. (x # xs) ! Suc j = Inr m" by blast
    then show "\<exists>m. xs ! j = Inr m" by simp
  qed
  from Cons.IH [OF this] obtain ms where "xs = map Inr ms" by blast
  with m have "x # xs = map Inr (m # ms)" by simp
  then show ?case by (rule exI)
qed

lemma map_Inr_length:
  "track_metrics env a i ts = map Inr ms \<Longrightarrow> length ms = length ts"
  using length_track_metrics [of env a i ts] by simp

lemma map2_song_entry_names:
  "length ms = length ts \<Longrightarrow> map name (map2 song_entry ts ms) = ts"
  by (induction ts ms rule: list_induct2') (simp_all add: song_entry_def)

lemma map2_song_entry_tokens:
  "length ms = length ts \<Longrightarrow> map lyrics_length_tokens (map2 song_entry ts ms) = map tokens ms"
  by (induction ts ms rule: list_induct2') (simp_all add: song_entry_def)

lemma run_report:
  assumes "run env url = Inr (rep, fp)"
  shows "total_tokens_all_songs rep = sum_list (map lyrics_length_tokens (songs rep))"
    and "avg_tokens_per_song rep =
           (if songs rep = [] then 0
            else py_round2 (nearest_double (total_tokens_all_songs rep) (length (songs rep))))"
    and "generate_embedding_hash (embedding_model env)
           (map int (map lyrics_length_tokens (songs rep))) = Inr fp"
proof -
  from run_sound [OF assms] obtain a alb sl ts ms where
    tm: "track_metrics env a 1 ts = map Inr ms"
    and fp: "generate_embedding_hash (embedding_model env) (map (\<lambda>m. int (tokens m)) ms) = Inr fp"
    and rep: "rep = \<lparr>artist = a, album_name = alb, songs = map2 song_entry ts ms,
                  total_tokens_all_songs = sum_list (map tokens ms),
                  avg_tokens_per_song =
                    (if ts = [] then 0
                     else py_round2 (nearest_double (sum_list (map tokens ms)) (length ts)))\<rparr>"
    by blast
  have len: "length ms = length ts" by (rule map_Inr_length [OF tm])
  have toks: "map lyrics_length_tokens (songs rep) = map tokens ms"
    by (simp only: rep report.select_convs map2_song_entry_tokens [OF len])
  have n: "length (songs rep) = length ts"
    using len by (simp add: rep)
  show "total_tokens_all_songs rep = sum_list (map lyrics_length_tokens (songs rep))"
    by (simp add: toks) (simp add: rep)
  show "avg_tokens_per_song rep =
           (if songs rep = [] then 0
            else py_round2 (nearest_double (total_tokens_all_songs rep) (length (songs rep))))"
  proof -
    have "(songs rep = []) = (ts = [])"
      using n by (cases ts; cases "songs rep"; simp)
    moreover have "avg_tokens_per_song rep =
        (if ts = [] then 0 else py_round2 (nearest_double (sum_list (map tokens ms)) (length ts)))"
      by (simp add: rep)
    moreover have "total_tokens_all_songs rep = sum_list (map tokens ms)"
      by (simp add: rep)
    ultimately show ?thesis using n by simp
  qed
  show "generate_embedding_hash (embedding_model env)
           (map int (map lyrics_length_tokens (songs rep))) = Inr fp"
    using fp by (simp add: toks comp_def)
qed


text \<open>The test doubles, evaluated.\<close>

lemma strip_fences_stub: "strip_fences (ascii ''```json {} ```'') = ascii ''{}''"
  by (simp add: strip_fences_def py_strip_def startswith_def endswith_def ascii_def isspace_def)

lemma stub_album:
  "get_first_album_songs (stub_env items (album title tracks) src) a =
     Inr (PStr (ascii title), PList (map (\<lambda>t. PStr (ascii t)) tracks))"
  by (simp add: get_first_album_songs_def stub_env_def stub_response_def message_content_def
      parse_album_def strip_fences_stub album_def raise_for_status_def)
    (simp add: ascii_def)

lemma stub_artist:
  "n \<noteq> [] \<Longrightarrow> get_artist_from_youtube (stub_env (channel n) ad src) url = Inr (PStr (ascii n))"
  by (simp add: get_artist_from_youtube_def stub_env_def channel_def ascii_def)

lemma stub_scrape_page:
  "src t = lyrics_page s \<Longrightarrow> 50 < length s \<Longrightarrow>
   scrape_genius_lyrics (stub_env items ad src) i t a = PStr s"
  by (simp add: scrape_genius_lyrics_def stub_env_def lyrics_page_def) (auto simp: ascii_def)

lemma stub_scrape_nothing:
  "src t = Inr [] \<or> src t = Inl e \<Longrightarrow>
   scrape_genius_lyrics (stub_env items ad src) i t a = PNone"
  by (auto simp: scrape_genius_lyrics_def stub_env_def)

lemma stub_env_sel:
  "tokenizer (stub_env items ad src) = stub_tokenizer"
  "embedding_model (stub_env items ad src) = stub_embedding"
  "genius_scraper (stub_env items ad src) i t a = src t"
  by (simp_all add: stub_env_def)

lemma length_concat_replicate: "length (concat (replicate n xs)) = n * length xs"
  by (induction n) simp_all

lemma stub_metrics_refrain:
  assumes w: "\<forall>c\<in>set (ascii w). \<not> isspace c \<and> c < 128" and ne: "w \<noteq> []" and n: "0 < n"
  shows "calculate_token_metrics stub_tokenizer (PStr (refrain w n)) =
           Inr \<lparr>chars = n * (length w + 1), words = n, tokens = n * length w,
                tokens_per_word = py_round2 (nearest_double (n * length w) n),
                hash = md5_hexdigest (map of_nat (refrain w n))\<rparr>"
proof -
  have ne': "ascii w \<noteq> []" using ne by (simp add: ascii_def)
  have nonempty: "refrain w n \<noteq> []"
    using n length_refrain [of w n] by (cases "refrain w n") auto
  have toks: "stub_tokenizer (refrain w n) = Inr (map int (concat (replicate n (ascii w))))"
    using w by (simp add: stub_tokenizer_def refrain_def filter_refrain)
  have "\<forall>c\<in>set (refrain w n). c < 128"
    using w by (auto simp: refrain_def)
  then have bs: "utf8_encode (refrain w n) = Inr (map of_nat (refrain w n))"
    by (rule utf8_encode_ascii)
  have sp: "py_split (refrain w n) = replicate n (ascii w)"
    using w ne' by (simp add: py_split_def refrain_def split_from_refrain)
  from calculate_token_metrics_str
    [of "refrain w n" stub_tokenizer "map int (concat (replicate n (ascii w)))"
        "map of_nat (refrain w n)"] nonempty toks bs sp n
  show ?thesis
    by (simp add: length_refrain length_concat_replicate ascii_def)
qed

lemma la_word: "\<forall>c\<in>set (ascii ''la''). \<not> isspace c \<and> c < 128"
  and do_word: "\<forall>c\<in>set (ascii ''do''). \<not> isspace c \<and> c < 128"
  by (simp_all add: ascii_def isspace_def)

lemma stub_metrics_la_50:
  "calculate_token_metrics stub_tokenizer (PStr (refrain ''la'' 50)) =
     Inr \<lparr>chars = 150, words = 50, tokens = 100, tokens_per_word = 2,
          hash = md5_hexdigest (map of_nat (refrain ''la'' 50))\<rparr>"
  using stub_metrics_refrain [OF la_word, of 50] by (simp add: float_eval)

lemma stub_metrics_la_25:
  "calculate_token_metrics stub_tokenizer (PStr (refrain ''la'' 25)) =
     Inr \<lparr>chars = 75, words = 25, tokens = 50, tokens_per_word = 2,
          hash = md5_hexdigest (map of_nat (refrain ''la'' 25))\<rparr>"
  using stub_metrics_refrain [OF la_word, of 25] by (simp add: float_eval)

lemma stub_metrics_do_50:
  "calculate_token_metrics stub_tokenizer (PStr (refrain ''do'' 50)) =
     Inr \<lparr>chars = 150, words = 50, tokens = 100, tokens_per_word = 2,
          hash = md5_hexdigest (map of_nat (refrain ''do'' 50))\<rparr>"
  using stub_metrics_refrain [OF do_word, of 50] by (simp add: float_eval)

lemma stub_embedding_hash:
  "generate_embedding_hash stub_embedding tc = Inr (stub_fingerprint tc)"
  by (simp add: generate_embedding_hash_eq stub_embedding_def stub_fingerprint_def)

lemma two_tracks_metrics:
  "track_metrics env_two_tracks a 1 [PStr (ascii ''Song A''), PStr (ascii ''Song B'')] =
     map Inr [\<lparr>chars = 150, words = 50, tokens = 100, tokens_per_word = 2,
               hash = md5_hexdigest (map of_nat (refrain ''la'' 50))\<rparr>, zero_metrics]"
proof -
  have A: "\<And>i. scrape_genius_lyrics env_two_tracks i (PStr (ascii ''Song A'')) a = PStr (refrain ''la'' 50)"
    unfolding env_two_tracks_def
    by (rule stub_scrape_page) (simp_all add: length_refrain)
  have B: "\<And>i. scrape_genius_lyrics env_two_tracks i (PStr (ascii ''Song B'')) a = PNone"
    unfolding env_two_tracks_def
    by (rule stub_scrape_nothing [where e = ApifyError]) (simp add: ascii_def)
  have tk: "tokenizer env_two_tracks = stub_tokenizer"
    by (simp add: env_two_tracks_def stub_env_sel)
  show ?thesis
    by (simp add: A B tk stub_metrics_la_50 calculate_token_metrics_falsy numeral_2_eq_2)
qed

lemma stub_run:
  assumes "n \<noteq> []"
    and "track_metrics (stub_env (channel n) (album t tracks) src) (PStr (ascii n)) 1
           (map (\<lambda>t. PStr (ascii t)) tracks) = map Inr ms"
  shows "run (stub_env (channel n) (album t tracks) src) url =
           Inr (\<lparr>artist = PStr (ascii n), album_name = PStr (ascii t),
                 songs = map2 song_entry (map (\<lambda>t. PStr (ascii t)) tracks) ms,
                 total_tokens_all_songs = sum_list (map tokens ms),
                 avg_tokens_per_song =
                   (if tracks = [] then 0
                    else py_round2 (nearest_double (sum_list (map tokens ms)) (length tracks)))\<rparr>,
                stub_fingerprint (map (\<lambda>m. int (tokens m)) ms))"
proof -
  let ?env = "stub_env (channel n) (album t tracks) src"
  have fp: "generate_embedding_hash (embedding_model ?env) (map (\<lambda>m. int (tokens m)) ms)
      = Inr (stub_fingerprint (map (\<lambda>m. int (tokens m)) ms))"
    by (simp add: stub_env_sel stub_embedding_hash)
  have it: "py_iter (PList (map (\<lambda>t. PStr (ascii t)) tracks)) = Inr (map (\<lambda>t. PStr (ascii t)) tracks)"
    by simp
  from run_complete [OF stub_artist [OF assms(1)] stub_album it assms(2) fp]
  show ?thesis by simp
qed

lemma average_100_2: "py_round2 (nearest_double 100 (Suc (Suc 0))) = 50"
  by (simp add: float_eval flip: numeral_2_eq_2)

lemma run_two_tracks:
  "run env_two_tracks url = Inr (report_two_tracks, stub_fingerprint [100, 0])"
proof -
  have tm: "track_metrics (stub_env (channel ''Artist X'') (album ''Debut'' [''Song A'', ''Song B''])
       (\<lambda>t. if t = PStr (ascii ''Song A'') then lyrics_page (refrain ''la'' 50) else Inr []))
       (PStr (ascii ''Artist X'')) 1 (map (\<lambda>t. PStr (ascii t)) [''Song A'', ''Song B''])
     = map Inr [\<lparr>chars = 150, words = 50, tokens = 100, tokens_per_word = 2,
               hash = md5_hexdigest (map of_nat (refrain ''la'' 50))\<rparr>, zero_metrics]"
    using two_tracks_metrics [of "PStr (ascii ''Artist X'')"] by (simp add: env_two_tracks_def)
  from stub_run [OF _ tm, of url] show ?thesis
    by (simp add: env_two_tracks_def zero_metrics_def average_100_2 report_two_tracks_def
        song_entry_def song_of_50_words_def song_without_lyrics_def)
qed

lemma other_artist_metrics:
  "track_metrics env_other_artist a 1 [PStr (ascii ''Intro''), PStr (ascii ''Outro'')] =
     map Inr [\<lparr>chars = 150, words = 50, tokens = 100, tokens_per_word = 2,
               hash = md5_hexdigest (map of_nat (refrain ''do'' 50))\<rparr>, zero_metrics]"
proof -
  have A: "\<And>i. scrape_genius_lyrics env_other_artist i (PStr (ascii ''Intro'')) a = PStr (refrain ''do'' 50)"
    unfolding env_other_artist_def
    by (rule stub_scrape_page) (simp_all add: length_refrain)
  have B: "\<And>i. scrape_genius_lyrics env_other_artist i (PStr (ascii ''Outro'')) a = PNone"
    unfolding env_other_artist_def
    by (rule stub_scrape_nothing [where e = ApifyError]) (simp add: ascii_def)
  have tk: "tokenizer env_other_artist = stub_tokenizer"
    by (simp add: env_other_artist_def stub_env_sel)
  show ?thesis
    by (simp add: A B tk stub_metrics_do_50 calculate_token_metrics_falsy numeral_2_eq_2)
qed

lemma run_other_artist:
  "run env_other_artist url = Inr (report_other_artist, stub_fingerprint [100, 0])"
proof -
  have tm: "track_metrics (stub_env (channel ''Artist Y'') (album ''Second'' [''Intro'', ''Outro''])
       (\<lambda>t. if t = PStr (ascii ''Intro'') then lyrics_page (refrain ''do'' 50) else Inl ApifyError))
       (PStr (ascii ''Artist Y'')) 1 (map (\<lambda>t. PStr (ascii t)) [''Intro'', ''Outro''])
     = map Inr [\<lparr>chars = 150, words = 50, tokens = 100, tokens_per_word = 2,
               hash = md5_hexdigest (map of_nat (refrain ''do'' 50))\<rparr>, zero_metrics]"
    using other_artist_metrics [of "PStr (ascii ''Artist Y'')"] by (simp add: env_other_artist_def)
  from stub_run [OF _ tm, of url] show ?thesis
    by (simp add: env_other_artist_def zero_metrics_def average_100_2 report_other_artist_def
        song_entry_def song_of_50_words_def song_without_lyrics_def)
qed

lemma three_tracks_metrics:
  "track_metrics env_three_tracks a 1
     [PStr (ascii ''Song A''), PStr (ascii ''Song B''), PStr (ascii ''Song C'')] =
     map Inr [\<lparr>chars = 150, words = 50, tokens = 100, tokens_per_word = 2,
               hash = md5_hexdigest (map of_nat (refrain ''la'' 50))\<rparr>,
              \<lparr>chars = 75, words = 25, tokens = 50, tokens_per_word = 2,
               hash = md5_hexdigest (map of_nat (refrain ''la'' 25))\<rparr>, zero_metrics]"
proof -
  have A: "\<And>i. scrape_genius_lyrics env_three_tracks i (PStr (ascii ''Song A'')) a = PStr (refrain ''la'' 50)"
    unfolding env_three_tracks_def
    by (rule stub_scrape_page) (simp_all add: length_refrain)
  have B: "\<And>i. scrape_genius_lyrics env_three_tracks i (PStr (ascii ''Song B'')) a = PStr (refrain ''la'' 25)"
    unfolding env_three_tracks_def
    by (rule stub_scrape_page) (simp_all add: length_refrain ascii_def)
  have C: "\<And>i. scrape_genius_lyrics env_three_tracks i (PStr (ascii ''Song C'')) a = PNone"
    unfolding env_three_tracks_def
    by (rule stub_scrape_nothing [where e = ApifyError]) (simp add: ascii_def)
  have tk: "tokenizer env_three_tracks = stub_tokenizer"
    by (simp add: env_three_tracks_def stub_env_sel)
  show ?thesis
    by (simp add: A B C tk stub_metrics_la_50 stub_metrics_la_25 calculate_token_metrics_falsy
        numeral_2_eq_2 numeral_3_eq_3)
qed

lemma run_three_tracks:
  "\<exists>rep fp. run env_three_tracks url = Inr (rep, fp)
      \<and> map lyrics_length_tokens (songs rep) = [100, 50, 0]"
proof -
  have tm: "track_metrics (stub_env (channel ''Artist X'')
        (album ''Debut'' [''Song A'', ''Song B'', ''Song C''])
       (\<lambda>t. if t = PStr (ascii ''Song A'') then lyrics_page (refrain ''la'' 50)
            else if t = PStr (ascii ''Song B'') then lyrics_page (refrain ''la'' 25)
            else Inr []))
       (PStr (ascii ''Artist X'')) 1 (map (\<lambda>t. PStr (ascii t)) [''Song A'', ''Song B'', ''Song C''])
     = map Inr [\<lparr>chars = 150, words = 50, tokens = 100, tokens_per_word = 2,
               hash = md5_hexdigest (map of_nat (refrain ''la'' 50))\<rparr>,
              \<lparr>chars = 75, words = 25, tokens = 50, tokens_per_word = 2,
               hash = md5_hexdigest (map of_nat (refrain ''la'' 25))\<rparr>, zero_metrics]"
    using three_tracks_metrics [of "PStr (ascii ''Artist X'')"] by (simp add: env_three_tracks_def)
  from stub_run [OF _ tm, of url] show ?thesis
    by (simp add: env_three_tracks_def zero_metrics_def song_entry_def)
qed

subsection \<open>Absent and empty lyrics\<close>

text \<open>
  Claim C3. \<open>calculate_token_metrics\<close> gives the same result for absent lyrics (\<open>None\<close>)
  and for the empty string, and raises for neither: zero characters, words and tokens, the
  ratio \<open>0.0\<close>, and the MD5 digest of the empty byte string as the hash.
\<close>

theorem absent_equals_empty:
  "calculate_token_metrics tok PNone = calculate_token_metrics tok (PStr [])
   \<and> calculate_token_metrics tok PNone =
       Inr \<lparr>chars = 0, words = 0, tokens = 0, tokens_per_word = 0,
            hash = ascii ''d41d8cd98f00b204e9800998ecf8427e''\<rparr>"
  by (simp add: calculate_token_metrics_def md5_empty_hex)

subsection \<open>Lyrics of at most 50 characters\<close>

text \<open>
  Claim C10. When the lyrics source returns a text, \<open>scrape_genius_lyrics\<close> passes it on
  only if it is longer than 50 characters; a text of 50 characters or fewer becomes
  \<open>None\<close>, and the track then gets the metrics of absent lyrics.
\<close>

theorem short_lyrics_rejected:
  assumes "genius_scraper env i song_title artist_name = Inr (r # rs)"
    and "py_get r (ascii ''lyrics'') = Inr (PStr text)"
  shows "scrape_genius_lyrics env i song_title artist_name =
           (if 50 < length text then PStr text else PNone)
         \<and> (length text \<le> 50 \<longrightarrow>
              calculate_token_metrics tok (scrape_genius_lyrics env i song_title artist_name)
                = calculate_token_metrics tok PNone)"
proof -
  have scrape: "scrape_genius_lyrics env i song_title artist_name =
           (if 50 < length text then PStr text else PNone)"
  proof (cases "text = []")
    case True
    with assms show ?thesis by (simp add: scrape_genius_lyrics_def)
  next
    case False
    with assms(2) have "py_getitem r (ascii ''lyrics'') = Inr (PStr text)"
      by (simp add: py_get_truthy_getitem)
    with assms False show ?thesis by (simp add: scrape_genius_lyrics_def)
  qed
  then show ?thesis by simp
qed

theorem short_lyrics_rejected_witness:
  "genius_scraper env_short_lyrics 1 (PStr (ascii ''Song A'')) (PStr (ascii ''Artist X''))
     = Inr (PDict [(ascii ''url'', PStr (ascii ''https://genius.com'')),
                   (ascii ''lyrics'', PStr (ascii ''lyrics for A''))] # [])
   \<and> length (ascii ''lyrics for A'') \<le> 50
   \<and> scrape_genius_lyrics env_short_lyrics 1 (PStr (ascii ''Song A'')) (PStr (ascii ''Artist X''))
       = PNone
   \<and> calculate_token_metrics stub_tokenizer
         (scrape_genius_lyrics env_short_lyrics 1 (PStr (ascii ''Song A''))
            (PStr (ascii ''Artist X'')))
       = calculate_token_metrics stub_tokenizer PNone"
proof -
  let ?r = "PDict [(ascii ''url'', PStr (ascii ''https://genius.com'')),
                   (ascii ''lyrics'', PStr (ascii ''lyrics for A''))]"
  have scraped:
    "genius_scraper env_short_lyrics 1 (PStr (ascii ''Song A'')) (PStr (ascii ''Artist X''))
       = Inr (?r # [])"
    by (simp add: env_short_lyrics_def stub_env_def lyrics_page_def)
  have found: "py_get ?r (ascii ''lyrics'') = Inr (PStr (ascii ''lyrics for A''))"
    by (simp add: ascii_def)
  have short: "length (ascii ''lyrics for A'') \<le> 50"
    by (simp add: ascii_def)
  from short_lyrics_rejected [OF scraped found, of stub_tokenizer] scraped short
  show ?thesis by simp
qed

subsection \<open>The lyrics hash\<close>

text \<open>
  Claim C7. For a non-empty lyrics string that the tokenizer accepts and that has a UTF-8
  encoding, \<open>calculate_token_metrics\<close> returns as \<open>hash\<close> the MD5 digest of the UTF-8
  bytes of the text as it was received: 32 lowercase hexadecimal characters, that is 128
  bits. The string \<open>La la la\<close> hashes to \<open>d0be2de22ce4c73c4c5447b3e0a8c8c3\<close>.
\<close>

theorem lyrics_hash_is_md5_of_raw_text:
  assumes "text \<noteq> []" and "tok text = Inr toks" and "utf8_encode text = Inr bs"
  shows "\<exists>m. calculate_token_metrics tok (PStr text) = Inr m
           \<and> hash m = md5_hexdigest bs
           \<and> length (hash m) = 32
           \<and> (\<forall>c\<in>set (hash m). is_lower_hex c)
           \<and> (text = ascii ''La la la'' \<longrightarrow> hash m = ascii ''d0be2de22ce4c73c4c5447b3e0a8c8c3'')"
proof -
  let ?m = "\<lparr>chars = length text, words = length (py_split text), tokens = length toks,
             tokens_per_word =
               (if py_split text = [] then 0
                else py_round2 (nearest_double (length toks) (length (py_split text)))),
             hash = md5_hexdigest bs\<rparr>"
  have run: "calculate_token_metrics tok (PStr text) = Inr ?m"
    using calculate_token_metrics_str [of "text" tok toks bs] assms by simp
  have "text = ascii ''La la la'' \<longrightarrow> md5_hexdigest bs = ascii ''d0be2de22ce4c73c4c5447b3e0a8c8c3''"
    using assms(3) by (auto simp: utf8_lalala md5_lalala_hex)
  with run show ?thesis
    by (simp add: length_md5_hexdigest md5_hexdigest_lower)
qed

theorem lyrics_hash_is_md5_of_raw_text_witness:
  "ascii ''La la la'' \<noteq> []
   \<and> stub_tokenizer (ascii ''La la la'') = Inr [76, 97, 108, 97, 108, 97]
   \<and> utf8_encode (ascii ''La la la'') = Inr [76, 97, 32, 108, 97, 32, 108, 97]
   \<and> (\<exists>m. calculate_token_metrics stub_tokenizer (PStr (ascii ''La la la'')) = Inr m
          \<and> hash m = ascii ''d0be2de22ce4c73c4c5447b3e0a8c8c3'')"
proof -
  have ne: "ascii ''La la la'' \<noteq> []"
    by (simp add: ascii_def)
  have tok: "stub_tokenizer (ascii ''La la la'') = Inr [76, 97, 108, 97, 108, 97]"
    by (simp add: stub_tokenizer_def ascii_def isspace_def)
  from lyrics_hash_is_md5_of_raw_text
      [of "ascii ''La la la''" stub_tokenizer "[76, 97, 108, 97, 108, 97]"
          "[76, 97, 32, 108, 97, 32, 108, 97]"] ne tok utf8_lalala
  show ?thesis by auto
qed

subsection \<open>Tokens per word\<close>

text \<open>
  Claim C6. For a lyrics string that the tokenizer accepts and that has a UTF-8 encoding,
  \<open>calculate_token_metrics\<close> returns, so no \<open>ZeroDivisionError\<close> is raised; with at
  least one word \<open>tokens_per_word\<close> is \<open>round(token_count / word_count, 2)\<close>, which for
  fewer than \<open>2 ^ 53 / 200\<close> tokens is the float next to a decimal \<open>K / 100\<close> at most half
  a hundredth away from the exact quotient; without a word, as for a string of whitespace
  only, it is \<open>0.0\<close>.
\<close>

theorem tokens_per_word_rounded:
  assumes "tok text = Inr toks" and "utf8_encode text = Inr bs"
  shows "\<exists>m. calculate_token_metrics tok (PStr text) = Inr m
           \<and> words m = length (py_split text)
           \<and> tokens m = (if text = [] then 0 else length toks)
           \<and> (0 < words m \<longrightarrow>
                tokens_per_word m = py_round2 (nearest_double (tokens m) (words m)))
           \<and> (0 < words m \<longrightarrow> 200 * tokens m < 2 ^ 53 \<longrightarrow>
                (\<exists>K. tokens_per_word m = nearest_double K 100
                   \<and> \<bar>of_nat K - 100 * of_nat (tokens m) / of_nat (words m)\<bar> \<le> (1 / 2 :: rat)))
           \<and> (words m = 0 \<longrightarrow> tokens_per_word m = 0)
           \<and> ((\<forall>c\<in>set text. isspace c) \<longrightarrow> words m = 0 \<and> tokens_per_word m = 0)"
proof (cases "text = []")
  case True
  then show ?thesis
    by (simp add: calculate_token_metrics_def py_split_def)
next
  case False
  let ?w = "length (py_split text)"
  let ?m = "\<lparr>chars = length text, words = ?w, tokens = length toks,
             tokens_per_word =
               (if py_split text = [] then 0 else py_round2 (nearest_double (length toks) ?w)),
             hash = md5_hexdigest bs\<rparr>"
  have run: "calculate_token_metrics tok (PStr text) = Inr ?m"
    using calculate_token_metrics_str [of "text" tok toks bs] False assms by simp
  have "0 < ?w \<longrightarrow> 200 * length toks < 2 ^ 53 \<longrightarrow>
          (\<exists>K. py_round2 (nearest_double (length toks) ?w) = nearest_double K 100
             \<and> \<bar>of_nat K - 100 * of_nat (length toks) / of_nat ?w\<bar> \<le> (1 / 2 :: rat))"
    using rounded_quotient by blast
  with run False show ?thesis
    by (simp add: py_split_empty_iff [symmetric])
qed

theorem tokens_per_word_rounded_witness:
  "stub_tokenizer (ascii ''La la la'') = Inr [76, 97, 108, 97, 108, 97]
   \<and> utf8_encode (ascii ''La la la'') = Inr [76, 97, 32, 108, 97, 32, 108, 97]
   \<and> (\<exists>m. calculate_token_metrics stub_tokenizer (PStr (ascii ''La la la'')) = Inr m
          \<and> words m = 3 \<and> tokens m = 6 \<and> tokens_per_word m = 2)
   \<and> stub_tokenizer (ascii ''   '') = Inr []
   \<and> utf8_encode (ascii ''   '') = Inr [32, 32, 32]
   \<and> (\<exists>m. calculate_token_metrics stub_tokenizer (PStr (ascii ''   '')) = Inr m
          \<and> words m = 0 \<and> tokens_per_word m = 0)"
proof -
  have tok: "stub_tokenizer (ascii ''La la la'') = Inr [76, 97, 108, 97, 108, 97]"
    by (simp add: stub_tokenizer_def ascii_def isspace_def)
  have sp: "py_split (ascii ''La la la'') = [[76, 97], [108, 97], [108, 97]]"
    by (simp add: py_split_def ascii_def isspace_def)
  have q: "py_round2 (nearest_double 6 3) = 2"
    by (simp add: float_eval)
  from tokens_per_word_rounded
    [of stub_tokenizer "ascii ''La la la''" "[76, 97, 108, 97, 108, 97]"
        "[76, 97, 32, 108, 97, 32, 108, 97]", OF tok utf8_lalala]
  obtain m where m: "calculate_token_metrics stub_tokenizer (PStr (ascii ''La la la'')) = Inr m"
    "words m = length (py_split (ascii ''La la la''))"
    "tokens m = (if ascii ''La la la'' = [] then 0 else length [76, 97, 108, 97, 108, 97 :: int])"
    "0 < words m \<longrightarrow> tokens_per_word m = py_round2 (nearest_double (tokens m) (words m))"
    by (elim exE conjE) (rule that, assumption+)
  from m(2) sp have w: "words m = 3" by simp
  from m(3) have t: "tokens m = 6" by (simp add: ascii_def)
  from m(4) w t q have r: "tokens_per_word m = 2" by simp
  have tok': "stub_tokenizer (ascii ''   '') = Inr []"
    by (simp add: stub_tokenizer_def ascii_def isspace_def)
  have enc': "utf8_encode (ascii ''   '') = Inr [32, 32, 32]"
    by (simp add: ascii_def utf8_char_def)
  have ws: "\<forall>c\<in>set (ascii ''   ''). isspace c"
    by (simp add: ascii_def isspace_def)
  from tokens_per_word_rounded [of stub_tokenizer "ascii ''   ''" "[]" "[32, 32, 32]", OF tok' enc']
  obtain m' where m': "calculate_token_metrics stub_tokenizer (PStr (ascii ''   '')) = Inr m'"
    "(\<forall>c\<in>set (ascii ''   ''). isspace c) \<longrightarrow> words m' = 0 \<and> tokens_per_word m' = 0"
    by (elim exE conjE) (rule that, assumption+)
  from m'(2) ws have z: "words m' = 0" "tokens_per_word m' = 0" by simp_all
  from tok utf8_lalala m(1) w t r tok' enc' m'(1) z show ?thesis by simp
qed

subsection \<open>The fingerprint is a function of the token counts\<close>

text \<open>
  Claim C1. Two finished runs with the same embedding model whose reports carry the same
  sequence of token counts return the same fingerprint, whatever the artist, the album
  and the lyrics are.
\<close>

theorem fingerprint_depends_on_token_counts_only:
  assumes "run env1 url1 = Inr (rep1, fp1)"
    and "run env2 url2 = Inr (rep2, fp2)"
    and "embedding_model env1 = embedding_model env2"
    and "map lyrics_length_tokens (songs rep1) = map lyrics_length_tokens (songs rep2)"
  shows "fp1 = fp2"
  using run_report(3) [OF assms(1)] run_report(3) [OF assms(2)] assms(3,4) by simp

theorem fingerprint_depends_on_token_counts_only_witness:
  "run env_two_tracks (ascii ''https://youtu.be/x'') = Inr (report_two_tracks, stub_fingerprint [100, 0])
   \<and> run env_other_artist (ascii ''https://youtu.be/y'')
       = Inr (report_other_artist, stub_fingerprint [100, 0])
   \<and> embedding_model env_two_tracks = embedding_model env_other_artist
   \<and> map lyrics_length_tokens (songs report_two_tracks) = [100, 0]
   \<and> map lyrics_length_tokens (songs report_other_artist) = [100, 0]
   \<and> artist report_two_tracks \<noteq> artist report_other_artist
   \<and> album_name report_two_tracks \<noteq> album_name report_other_artist"
proof -
  note r1 = run_two_tracks [of "ascii ''https://youtu.be/x''"]
  note r2 = run_other_artist [of "ascii ''https://youtu.be/y''"]
  have emb: "embedding_model env_two_tracks = embedding_model env_other_artist"
    by (simp add: env_two_tracks_def env_other_artist_def stub_env_sel)
  have c1: "map lyrics_length_tokens (songs report_two_tracks) = [100, 0]"
    by (simp add: report_two_tracks_def song_of_50_words_def song_without_lyrics_def)
  have c2: "map lyrics_length_tokens (songs report_other_artist) = [100, 0]"
    by (simp add: report_other_artist_def song_of_50_words_def song_without_lyrics_def)
  have names: "artist report_two_tracks \<noteq> artist report_other_artist"
    "album_name report_two_tracks \<noteq> album_name report_other_artist"
    by (simp_all add: report_two_tracks_def report_other_artist_def ascii_def)
  from c1 c2 have counts: "map lyrics_length_tokens (songs report_two_tracks)
      = map lyrics_length_tokens (songs report_other_artist)"
    by simp
  from fingerprint_depends_on_token_counts_only [OF r1 r2 emb counts] r1 r2 emb c1 c2 names
  show ?thesis by simp
qed

subsection \<open>Totals\<close>

text \<open>
  Claim C5. For every finished run \<open>total_tokens_all_songs\<close> is the sum of the tracks'
  token counts, and \<open>avg_tokens_per_song\<close> is \<open>round(total / number_of_tracks, 2)\<close>, or 0
  for no tracks; for fewer than \<open>2 ^ 53 / 200\<close> tokens the average is the float next to a
  decimal \<open>K / 100\<close> at most half a hundredth away from the exact quotient. The token
  counts 100, 50, 0 give the total 150 and the average 50.0.
\<close>

theorem aggregate_totals:
  assumes "run env url = Inr (rep, fp)"
  shows "total_tokens_all_songs rep = sum_list (map lyrics_length_tokens (songs rep))
       \<and> (songs rep = [] \<longrightarrow> avg_tokens_per_song rep = 0)
       \<and> (songs rep \<noteq> [] \<longrightarrow>
            avg_tokens_per_song rep =
              py_round2 (nearest_double (total_tokens_all_songs rep) (length (songs rep))))
       \<and> (songs rep \<noteq> [] \<longrightarrow> 200 * total_tokens_all_songs rep < 2 ^ 53 \<longrightarrow>
            (\<exists>K. avg_tokens_per_song rep = nearest_double K 100
               \<and> \<bar>of_nat K - 100 * of_nat (total_tokens_all_songs rep)
                     / of_nat (length (songs rep))\<bar> \<le> (1 / 2 :: rat)))
       \<and> (map lyrics_length_tokens (songs rep) = [100, 50, 0] \<longrightarrow>
            total_tokens_all_songs rep = 150 \<and> avg_tokens_per_song rep = 50)"
proof -
  note r = run_report(1,2) [OF assms]
  have "songs rep \<noteq> [] \<longrightarrow> 200 * total_tokens_all_songs rep < 2 ^ 53 \<longrightarrow>
            (\<exists>K. avg_tokens_per_song rep = nearest_double K 100
               \<and> \<bar>of_nat K - 100 * of_nat (total_tokens_all_songs rep)
                     / of_nat (length (songs rep))\<bar> \<le> (1 / 2 :: rat))"
    using rounded_quotient [of "length (songs rep)" "total_tokens_all_songs rep"] r(2)
    by simp
  moreover have "map lyrics_length_tokens (songs rep) = [100, 50, 0] \<longrightarrow>
            total_tokens_all_songs rep = 150 \<and> avg_tokens_per_song rep = 50"
  proof
    assume tc: "map lyrics_length_tokens (songs rep) = [100, 50, 0]"
    then have "length (map lyrics_length_tokens (songs rep)) = 3" by simp
    then have n: "length (songs rep) = 3" by simp
    then have ne: "songs rep \<noteq> []" by auto
    from r(1) tc have t: "total_tokens_all_songs rep = 150" by simp
    have "py_round2 (nearest_double 150 3) = 50"
      by (simp add: float_eval)
    with r(2) ne n t show "total_tokens_all_songs rep = 150 \<and> avg_tokens_per_song rep = 50"
      by simp
  qed
  ultimately show ?thesis using r by simp
qed

theorem aggregate_totals_witness:
  "\<exists>rep fp. run env_three_tracks (ascii ''https://youtu.be/x'') = Inr (rep, fp)
     \<and> map lyrics_length_tokens (songs rep) = [100, 50, 0]
     \<and> total_tokens_all_songs rep = 150
     \<and> avg_tokens_per_song rep = 50"
proof -
  from run_three_tracks [of "ascii ''https://youtu.be/x''"] obtain rep fp where
    r: "run env_three_tracks (ascii ''https://youtu.be/x'') = Inr (rep, fp)"
    and tc: "map lyrics_length_tokens (songs rep) = [100, 50, 0]"
    by (elim exE conjE) (rule that, assumption+)
  from aggregate_totals [OF r] tc
  have "total_tokens_all_songs rep = 150 \<and> avg_tokens_per_song rep = 50"
    by simp
  with r tc show ?thesis by simp
qed

end
